theory Spec2Isabelle
  imports Complex_Main "HOL-Library.Word"
begin

unbundle bit_operations_syntax

section \<open>The shader program of SFML/Graphics/Shader.cpp\<close>

text \<open>
  The theory embeds the desktop branch of \<^verbatim>\<open>Shader.cpp\<close> (the part under
  \<^verbatim>\<open>#ifndef SFML_OPENGL_ES\<close>, with the identity handle casts of the non-Apple
  platforms). The OpenGL backend, the error stream and the process-wide statics are an
  explicit \<open>world\<close> that every operation takes and returns; what the backend answers
  is a parameter (\<open>driver\<close>); what \<^verbatim>\<open>Shader.hpp\<close> declares and this file only
  uses is a parameter too (\<open>decls\<close>).
\<close>

subsection \<open>Values\<close>

text \<open>\<^verbatim>\<open>unsigned int m_shaderProgram\<close> and \<^verbatim>\<open>GLEXT_GLhandle\<close>: 32-bit handles, 0 is "no object".\<close>
type_synonym GLhandle = "32 word"

text \<open>\<^verbatim>\<open>const Texture*\<close>: the address of a texture owned by the caller.\<close>
type_synonym texture_ptr = nat

text \<open>
  \<^verbatim>\<open>float\<close> arguments are carried to the backend unchanged; a \<^verbatim>\<open>float\<close> is the real
  number it denotes.
  Uniform locations (\<^verbatim>\<open>GLint\<close>) are integers, \<open>-1\<close> is "not found".
\<close>
datatype Vector2f = Vector2f real real
datatype Vector3f = Vector3f real real real
datatype Color = Color "8 word" "8 word" "8 word" "8 word"

text \<open>\<^verbatim>\<open>sf::Transform\<close>, read through \<^verbatim>\<open>getMatrix()\<close>: the 16 floats of a 4x4 matrix.\<close>
type_synonym Transform = "real list"

datatype ShaderStage = GL_VERTEX_SHADER | GL_GEOMETRY_SHADER | GL_FRAGMENT_SHADER
datatype ObjectParam = GL_OBJECT_COMPILE_STATUS | GL_OBJECT_LINK_STATUS

subsection \<open>What the header declares\<close>

text \<open>
  \<^verbatim>\<open>Shader.hpp\<close> is not among the sources. Its enumerators \<^verbatim>\<open>Vertex\<close>,
  \<^verbatim>\<open>Geometry\<close>, \<^verbatim>\<open>Fragment\<close> (used as bit masks by \<^verbatim>\<open>isAvailable\<close> and
  \<^verbatim>\<open>compile\<close>), the default argument of \<^verbatim>\<open>isAvailable\<close> (used by \<^verbatim>\<open>bind\<close>)
  and the text returned by \<^verbatim>\<open>getDefaultVertexShaderCode()\<close> are parameters.
\<close>
record decls =
  Vertex :: int
  Geometry :: int
  Fragment :: int
  isAvailable_default :: int
  getDefaultVertexShaderCode :: string

subsection \<open>The backend\<close>

text \<open>Every call that leaves \<^verbatim>\<open>Shader.cpp\<close>, in the order it is issued.\<close>
datatype gl_call =
    EnsureGlContext
  | Mutex_lock
  | Mutex_unlock
  | Context_create
  | Context_destroy
  | EnsureExtensionsInit
  | GetIntegerv_MAX_COMBINED_TEXTURE_IMAGE_UNITS
  | GetHandle_PROGRAM_OBJECT
  | UseProgramObject GLhandle
  | GetUniformLocation GLhandle string
  | Uniform1f int real
  | Uniform2f int real real
  | Uniform3f int real real real
  | Uniform4f int real real real real
  | UniformMatrix4fv int Transform
  | Uniform1i int int
  | ActiveTexture int
  | Texture_bind texture_ptr
  | CreateProgramObject
  | CreateShaderObject ShaderStage
  | ShaderSource GLhandle string
  | CompileShader GLhandle
  | GetObjectParameteriv GLhandle ObjectParam
  | GetInfoLog GLhandle
  | AttachObject GLhandle GLhandle
  | DeleteObject GLhandle
  | LinkProgram GLhandle
  | Flush

text \<open>
  What the backend answers: the extension flags read by \<^verbatim>\<open>checkShadersAvailable\<close>, the
  combined texture-unit limit, the handle of the \<open>n\<close>-th object it creates, the compile
  status and log of a stage source, the link status and log of a set of attached stages,
  and the location of a uniform in a program.
\<close>
record driver =
  GLEXT_multitexture :: bool
  GLEXT_shading_language_100 :: bool
  GLEXT_shader_objects :: bool
  GLEXT_vertex_shader :: bool
  GLEXT_fragment_shader :: bool
  GLEXT_geometry_shader4 :: bool
  max_combined_texture_image_units :: int
  new_handle :: "nat \<Rightarrow> GLhandle"
  compile_status :: "ShaderStage \<Rightarrow> string \<Rightarrow> bool"
  compile_log :: "ShaderStage \<Rightarrow> string \<Rightarrow> string"
  link_status :: "(ShaderStage \<times> string) list \<Rightarrow> bool"
  link_log :: "(ShaderStage \<times> string) list \<Rightarrow> string"
  uniform_location :: "GLhandle \<Rightarrow> string \<Rightarrow> int"

text \<open>
  Everything outside a \<^verbatim>\<open>Shader\<close> instance: the calls issued so far, the program and
  the texture unit that are current in the backend, the number of backend objects created,
  the lines written to \<^verbatim>\<open>err()\<close>, the three file-level availability flags, and the two
  function-level statics (\<open>None\<close> until their initialiser has run).
\<close>
record world =
  gl_calls :: "gl_call list"
  gl_program :: GLhandle
  gl_active_texture :: int
  gl_created :: nat
  err_lines :: "string list"
  vertexShaderAvailable :: bool
  fragmentShaderAvailable :: bool
  geometryShaderAvailable :: bool
  isAvailable_available :: "bool option"
  getMaxTextureUnits_maxUnits :: "int option"

definition gl :: "gl_call \<Rightarrow> world \<Rightarrow> world" where
  "gl c w = w\<lparr>gl_calls := gl_calls w @ [c]\<rparr>"

definition err :: "string \<Rightarrow> world \<Rightarrow> world" where
  "err line w = w\<lparr>err_lines := err_lines w @ [line]\<rparr>"

definition glGetHandle_PROGRAM_OBJECT :: "world \<Rightarrow> GLhandle \<times> world" where
  "glGetHandle_PROGRAM_OBJECT w = (gl_program w, gl GetHandle_PROGRAM_OBJECT w)"

definition glUseProgramObject :: "GLhandle \<Rightarrow> world \<Rightarrow> world" where
  "glUseProgramObject h w = gl (UseProgramObject h) (w\<lparr>gl_program := h\<rparr>)"

definition glActiveTexture :: "int \<Rightarrow> world \<Rightarrow> world" where
  "glActiveTexture unit w = gl (ActiveTexture unit) (w\<lparr>gl_active_texture := unit\<rparr>)"

definition glGetUniformLocation :: "driver \<Rightarrow> GLhandle \<Rightarrow> string \<Rightarrow> world \<Rightarrow> int \<times> world" where
  "glGetUniformLocation d program name w =
     (uniform_location d program name, gl (GetUniformLocation program name) w)"

definition glCreateObject :: "driver \<Rightarrow> gl_call \<Rightarrow> world \<Rightarrow> GLhandle \<times> world" where
  "glCreateObject d c w =
     (new_handle d (gl_created w), gl c (w\<lparr>gl_created := Suc (gl_created w)\<rparr>))"

subsection \<open>The instance\<close>

text \<open>
  \<^verbatim>\<open>m_textures\<close> is an ordered map from location to texture (the code uses \<^verbatim>\<open>find\<close>,
  \<^verbatim>\<open>operator[]\<close>, \<^verbatim>\<open>size\<close> and iterates from \<^verbatim>\<open>begin()\<close>): an association list
  kept in increasing key order. \<^verbatim>\<open>m_params\<close> is only searched with \<^verbatim>\<open>find\<close>,
  inserted into on a miss and cleared, never iterated: an association list with the
  newest entry in front.
\<close>
record Shader =
  m_shaderProgram :: GLhandle
  m_currentTexture :: int
  m_textures :: "(int \<times> texture_ptr) list"
  m_params :: "(string \<times> int) list"

text \<open>\<^verbatim>\<open>m_textures[location] = &texture\<close> and \<^verbatim>\<open>it->second = &texture\<close>.\<close>
fun table_assign :: "int \<Rightarrow> 'v \<Rightarrow> (int \<times> 'v) list \<Rightarrow> (int \<times> 'v) list" where
  "table_assign k v [] = [(k, v)]"
| "table_assign k v ((k', v') # rest) =
     (if k < k' then (k, v) # (k', v') # rest
      else if k = k' then (k, v) # rest
      else (k', v') # table_assign k v rest)"

text \<open>
  The instance built by the constructor \<^verbatim>\<open>Shader::Shader()\<close> (which also makes sure the
  extensions are initialised; that leaves the instance untouched).
\<close>
definition Shader_new :: Shader where
  "Shader_new = \<lparr>m_shaderProgram = 0, m_currentTexture = -1, m_textures = [], m_params = []\<rparr>"

definition getNativeHandle :: "Shader \<Rightarrow> GLhandle" where
  "getNativeHandle s = m_shaderProgram s"

subsection \<open>Uniform locations\<close>

definition not_found_line :: "string \<Rightarrow> string" where
  "not_found_line name = ''Parameter '' @ [CHR 0x22] @ name @ [CHR 0x22] @ '' not found in shader''"

text \<open>\<^verbatim>\<open>name.c_str()\<close> as the backend reads it: the characters before the first NUL.\<close>
definition c_str :: "string \<Rightarrow> string" where
  "c_str str = takeWhile (\<lambda>c. c \<noteq> CHR 0x00) str"

definition getParamLocation :: "driver \<Rightarrow> string \<Rightarrow> Shader \<Rightarrow> world \<Rightarrow> int \<times> Shader \<times> world" where
  "getParamLocation d name s w =
     (case map_of (m_params s) name of
        Some cached \<Rightarrow> (cached, s, w)
      | None \<Rightarrow>
          (let (location, w1) = glGetUniformLocation d (m_shaderProgram s) (c_str name) w;
               s1 = s\<lparr>m_params := (name, location) # m_params s\<rparr>;
               w2 = (if location = -1 then err (not_found_line name) w1 else w1)
           in (location, s1, w2)))"

subsection \<open>Setting parameters\<close>

text \<open>
  The bodies of the \<^verbatim>\<open>float\<close> overloads with one to four components and of the
  \<^verbatim>\<open>Transform\<close> overload differ only in the write they issue; \<open>write\<close> is that call at
  the resolved location.
\<close>
definition setParameter_write :: "driver \<Rightarrow> string \<Rightarrow> (int \<Rightarrow> gl_call) \<Rightarrow> Shader \<Rightarrow> world \<Rightarrow> Shader \<times> world" where
  "setParameter_write d name write s w =
     (if m_shaderProgram s \<noteq> 0 then
        (let w1 = gl EnsureGlContext w;
             (program, w2) = glGetHandle_PROGRAM_OBJECT w1;
             w3 = glUseProgramObject (m_shaderProgram s) w2;
             (location, s1, w4) = getParamLocation d name s w3;
             w5 = (if location \<noteq> -1 then gl (write location) w4 else w4);
             w6 = glUseProgramObject program w5
         in (s1, w6))
      else (s, w))"

definition setParameter_1f :: "driver \<Rightarrow> string \<Rightarrow> real \<Rightarrow> Shader \<Rightarrow> world \<Rightarrow> Shader \<times> world" where
  "setParameter_1f d name x = setParameter_write d name (\<lambda>location. Uniform1f location x)"

definition setParameter_2f :: "driver \<Rightarrow> string \<Rightarrow> real \<Rightarrow> real \<Rightarrow> Shader \<Rightarrow> world \<Rightarrow> Shader \<times> world" where
  "setParameter_2f d name x y = setParameter_write d name (\<lambda>location. Uniform2f location x y)"

definition setParameter_3f :: "driver \<Rightarrow> string \<Rightarrow> real \<Rightarrow> real \<Rightarrow> real \<Rightarrow> Shader \<Rightarrow> world \<Rightarrow> Shader \<times> world" where
  "setParameter_3f d name x y z = setParameter_write d name (\<lambda>location. Uniform3f location x y z)"

definition setParameter_4f :: "driver \<Rightarrow> string \<Rightarrow> real \<Rightarrow> real \<Rightarrow> real \<Rightarrow> real \<Rightarrow> Shader \<Rightarrow> world \<Rightarrow> Shader \<times> world" where
  "setParameter_4f d name x y z t = setParameter_write d name (\<lambda>location. Uniform4f location x y z t)"

fun setParameter_Vector2f :: "driver \<Rightarrow> string \<Rightarrow> Vector2f \<Rightarrow> Shader \<Rightarrow> world \<Rightarrow> Shader \<times> world" where
  "setParameter_Vector2f d name (Vector2f x y) s w = setParameter_2f d name x y s w"

fun setParameter_Vector3f :: "driver \<Rightarrow> string \<Rightarrow> Vector3f \<Rightarrow> Shader \<Rightarrow> world \<Rightarrow> Shader \<times> world" where
  "setParameter_Vector3f d name (Vector3f x y z) s w = setParameter_3f d name x y z s w"

text \<open>
  \<^verbatim>\<open>color.r / 255.f\<close>: the channel converts to \<^verbatim>\<open>float\<close> exactly and the quotient is
  rounded to the nearest single-precision value (IEEE 754, 24 significant bits). With
  \<open>n\<close> the least shift that brings \<open>k / 255\<close> to at least 1, the significand is
  \<open>k * 2^(23 + n) / 255\<close> rounded to the nearest integer; 255 is odd, so no tie arises.
\<close>
definition float_div255 :: "8 word \<Rightarrow> real" where
  "float_div255 c =
     (let k = unat c;
          n = 23 + length (takeWhile (\<lambda>n. k * 2 ^ n < 255) [0..<8]);
          q = (k * 2 ^ n) div 255;
          r = (k * 2 ^ n) mod 255;
          m = (if 255 < 2 * r then q + 1 else q)
      in real m / 2 ^ n)"

fun setParameter_Color :: "driver \<Rightarrow> string \<Rightarrow> Color \<Rightarrow> Shader \<Rightarrow> world \<Rightarrow> Shader \<times> world" where
  "setParameter_Color d name (Color r g b a) s w =
     setParameter_4f d name (float_div255 r) (float_div255 g)
       (float_div255 b) (float_div255 a) s w"

definition setParameter_Transform :: "driver \<Rightarrow> string \<Rightarrow> Transform \<Rightarrow> Shader \<Rightarrow> world \<Rightarrow> Shader \<times> world" where
  "setParameter_Transform d name transform =
     setParameter_write d name (\<lambda>location. UniformMatrix4fv location transform)"

text \<open>
  \<^verbatim>\<open>getMaxTextureUnits\<close>: the function-level static is initialised by the first call,
  under the file's mutex.
\<close>
definition checkMaxTextureUnits :: "driver \<Rightarrow> world \<Rightarrow> int \<times> world" where
  "checkMaxTextureUnits d w =
     (max_combined_texture_image_units d, gl GetIntegerv_MAX_COMBINED_TEXTURE_IMAGE_UNITS w)"

definition getMaxTextureUnits :: "driver \<Rightarrow> world \<Rightarrow> int \<times> world" where
  "getMaxTextureUnits d w =
     (let w1 = gl Mutex_lock w;
          (maxUnits, w2) =
            (case getMaxTextureUnits_maxUnits w1 of
               Some m \<Rightarrow> (m, w1)
             | None \<Rightarrow>
                 (let (m, w') = checkMaxTextureUnits d w1
                  in (m, w'\<lparr>getMaxTextureUnits_maxUnits := Some m\<rparr>)))
      in (maxUnits, gl Mutex_unlock w2))"

text \<open>\<^verbatim>\<open>static_cast<std::size_t>(maxUnits)\<close> for a 64-bit \<^verbatim>\<open>size_t\<close>.\<close>
definition size_t_cast :: "int \<Rightarrow> nat" where
  "size_t_cast i = nat (i mod 2 ^ 64)"

definition no_unit_line :: "string \<Rightarrow> string" where
  "no_unit_line name = ''Impossible to use texture '' @ [CHR 0x22] @ name @ [CHR 0x22]
     @ '' for shader: all available texture units are used''"

definition setParameter_Texture :: "driver \<Rightarrow> string \<Rightarrow> texture_ptr \<Rightarrow> Shader \<Rightarrow> world \<Rightarrow> Shader \<times> world" where
  "setParameter_Texture d name texture s w =
     (if m_shaderProgram s \<noteq> 0 then
        (let w1 = gl EnsureGlContext w;
             (location, s1, w2) = getParamLocation d name s w1
         in if location \<noteq> -1 then
              (case map_of (m_textures s1) location of
                 None \<Rightarrow>
                   (let (maxUnits, w3) = getMaxTextureUnits d w2
                    in if length (m_textures s1) + 1 \<ge> size_t_cast maxUnits
                       then (s1, err (no_unit_line name) w3)
                       else (s1\<lparr>m_textures := table_assign location texture (m_textures s1)\<rparr>, w3))
               | Some _ \<Rightarrow>
                   (s1\<lparr>m_textures := table_assign location texture (m_textures s1)\<rparr>, w2))
            else (s1, w2))
      else (s, w))"

definition setParameter_CurrentTexture :: "driver \<Rightarrow> string \<Rightarrow> Shader \<Rightarrow> world \<Rightarrow> Shader \<times> world" where
  "setParameter_CurrentTexture d name s w =
     (if m_shaderProgram s \<noteq> 0 then
        (let w1 = gl EnsureGlContext w;
             (location, s1, w2) = getParamLocation d name s w1
         in (s1\<lparr>m_currentTexture := location\<rparr>, w2))
      else (s, w))"

text \<open>A caller setting texture parameters one after the other.\<close>
fun setParameter_Textures :: "driver \<Rightarrow> (string \<times> texture_ptr) list \<Rightarrow> Shader \<Rightarrow> world \<Rightarrow> Shader \<times> world" where
  "setParameter_Textures d [] s w = (s, w)"
| "setParameter_Textures d ((name, texture) # rest) s w =
     (let (s1, w1) = setParameter_Texture d name texture s w
      in setParameter_Textures d rest s1 w1)"

subsection \<open>Availability\<close>

definition checkShadersAvailable :: "driver \<Rightarrow> world \<Rightarrow> bool \<times> world" where
  "checkShadersAvailable d w =
     (let w1 = gl Context_create w;
          w2 = gl EnsureExtensionsInit w1;
          available = (GLEXT_multitexture d \<and> GLEXT_shading_language_100 d \<and>
                       GLEXT_shader_objects d \<and> GLEXT_vertex_shader d \<and>
                       GLEXT_fragment_shader d);
          w3 = w2\<lparr>vertexShaderAvailable := available\<rparr>;
          w4 = w3\<lparr>fragmentShaderAvailable := available\<rparr>;
          w5 = w4\<lparr>geometryShaderAvailable := GLEXT_geometry_shader4 d\<rparr>
      in (available, gl Context_destroy w5))"

definition isAvailable :: "decls \<Rightarrow> driver \<Rightarrow> int \<Rightarrow> world \<Rightarrow> bool \<times> world" where
  "isAvailable h d shaderTypes w =
     (let w1 = gl Mutex_lock w;
          w2 = (case isAvailable_available w1 of
                  Some _ \<Rightarrow> w1
                | None \<Rightarrow>
                    (let (available, w') = checkShadersAvailable d w1
                     in w'\<lparr>isAvailable_available := Some available\<rparr>));
          result =
            (if shaderTypes AND Vertex h \<noteq> 0 \<and> \<not> vertexShaderAvailable w2 then False
             else if shaderTypes AND Fragment h \<noteq> 0 \<and> \<not> fragmentShaderAvailable w2 then False
             else if shaderTypes AND Geometry h \<noteq> 0 \<and> \<not> geometryShaderAvailable w2 then False
             else True)
      in (result, gl Mutex_unlock w2))"

subsection \<open>Compiling and linking\<close>

definition unsupported_create_line :: string where
  "unsupported_create_line = ''Failed to create a shader: your system doesn'' @ [CHR 0x27] @
     ''t support shaders (you should test Shader::isAvailable(shaderTypes) before trying to use the Shader class)''"

fun stage_name :: "ShaderStage \<Rightarrow> string" where
  "stage_name GL_VERTEX_SHADER = ''vertex''"
| "stage_name GL_GEOMETRY_SHADER = ''geometry''"
| "stage_name GL_FRAGMENT_SHADER = ''fragment''"

text \<open>
  The three stage blocks of \<^verbatim>\<open>compile\<close> are the same text up to the stage: create the
  shader object, give it the source, compile, read the status; on failure report the
  log (a 1024-byte buffer), delete the shader and the program; on success attach the
  shader and delete it.
\<close>
definition compileStage :: "driver \<Rightarrow> ShaderStage \<Rightarrow> string \<Rightarrow> GLhandle \<Rightarrow> world \<Rightarrow> bool \<times> world" where
  "compileStage d stage code shaderProgram w =
     (let (shader, w1) = glCreateObject d (CreateShaderObject stage) w;
          w2 = gl (ShaderSource shader code) w1;
          w3 = gl (CompileShader shader) w2;
          w4 = gl (GetObjectParameteriv shader GL_OBJECT_COMPILE_STATUS) w3
      in if \<not> compile_status d stage code then
           (let w5 = gl (GetInfoLog shader) w4;
                w6 = err (''Failed to compile '' @ stage_name stage @ '' shader:'') w5;
                w7 = err (take 1023 (compile_log d stage code)) w6;
                w8 = gl (DeleteObject shader) w7
            in (False, gl (DeleteObject shaderProgram) w8))
         else
           (let w5 = gl (AttachObject shaderProgram shader) w4
            in (True, gl (DeleteObject shader) w5)))"

text \<open>A stage block is entered only when its source pointer is not null.\<close>
definition compileStage_opt :: "driver \<Rightarrow> ShaderStage \<Rightarrow> string option \<Rightarrow> GLhandle \<Rightarrow> world \<Rightarrow> bool \<times> world" where
  "compileStage_opt d stage code shaderProgram w =
     (case code of
        None \<Rightarrow> (True, w)
      | Some text \<Rightarrow> compileStage d stage text shaderProgram w)"

text \<open>
  The shaders attached to the program when the link is reached, on which the backend's
  link status depends.
\<close>
definition attached_stages :: "string option \<Rightarrow> string option \<Rightarrow> string option \<Rightarrow> (ShaderStage \<times> string) list" where
  "attached_stages v g f =
     (case v of None \<Rightarrow> [] | Some c \<Rightarrow> [(GL_VERTEX_SHADER, c)]) @
     (case g of None \<Rightarrow> [] | Some c \<Rightarrow> [(GL_GEOMETRY_SHADER, c)]) @
     (case f of None \<Rightarrow> [] | Some c \<Rightarrow> [(GL_FRAGMENT_SHADER, c)])"

text \<open>
  The end of \<^verbatim>\<open>compile\<close>: link, read the status; on failure report the log and delete
  the program; on success store the handle in the instance and flush.
\<close>
definition linkProgram :: "driver \<Rightarrow> (ShaderStage \<times> string) list \<Rightarrow> GLhandle \<Rightarrow> Shader \<Rightarrow> world \<Rightarrow> bool \<times> Shader \<times> world" where
  "linkProgram d attached shaderProgram s w =
     (let w1 = gl (LinkProgram shaderProgram) w;
          w2 = gl (GetObjectParameteriv shaderProgram GL_OBJECT_LINK_STATUS) w1
      in if \<not> link_status d attached then
           (let w3 = gl (GetInfoLog shaderProgram) w2;
                w4 = err ''Failed to link shader:'' w3;
                w5 = err (take 1023 (link_log d attached)) w4
            in (False, s, gl (DeleteObject shaderProgram) w5))
         else (True, s\<lparr>m_shaderProgram := shaderProgram\<rparr>, gl Flush w2))"

definition compile :: "decls \<Rightarrow> driver \<Rightarrow> string option \<Rightarrow> string option \<Rightarrow> string option \<Rightarrow> Shader \<Rightarrow> world \<Rightarrow> bool \<times> Shader \<times> world" where
  "compile h d vertexShaderCode geometryShaderCode fragmentShaderCode s w =
     (let w1 = gl EnsureGlContext w;
          shadersToUse = (if vertexShaderCode \<noteq> None then Vertex h else 0) OR
                         (if geometryShaderCode \<noteq> None then Geometry h else 0) OR
                         (if fragmentShaderCode \<noteq> None then Fragment h else 0);
          (available, w2) = isAvailable h d shadersToUse w1
      in if \<not> available then (False, s, err unsupported_create_line w2)
         else
           (let (s1, w3) = (if m_shaderProgram s \<noteq> 0
                            then (s\<lparr>m_shaderProgram := 0\<rparr>, gl (DeleteObject (m_shaderProgram s)) w2)
                            else (s, w2));
                s2 = s1\<lparr>m_currentTexture := -1, m_textures := [], m_params := []\<rparr>;
                (shaderProgram, w4) = glCreateObject d CreateProgramObject w3;
                vertexCode = (if vertexShaderCode = None \<and> geometryShaderCode \<noteq> None
                              then Some (getDefaultVertexShaderCode h) else vertexShaderCode);
                (vertexOk, w5) = compileStage_opt d GL_VERTEX_SHADER vertexCode shaderProgram w4
            in if \<not> vertexOk then (False, s2, w5)
               else
                 (let (geometryOk, w6) = compileStage_opt d GL_GEOMETRY_SHADER geometryShaderCode shaderProgram w5
                  in if \<not> geometryOk then (False, s2, w6)
                     else
                       (let (fragmentOk, w7) = compileStage_opt d GL_FRAGMENT_SHADER fragmentShaderCode shaderProgram w6
                        in if \<not> fragmentOk then (False, s2, w7)
                           else linkProgram d (attached_stages vertexCode geometryShaderCode fragmentShaderCode)
                                  shaderProgram s2 w7))))"

subsection \<open>Binding\<close>

text \<open>\<^verbatim>\<open>static_cast<GLsizei>(i + 1)\<close>: the index as a signed 32-bit integer.\<close>
definition GLsizei_cast :: "nat \<Rightarrow> int" where
  "GLsizei_cast n = sint (word_of_nat n :: 32 word)"

text \<open>
  The loop of \<^verbatim>\<open>bindTextures\<close>: \<open>i\<close> counts the entries already visited, the list is
  what the iterator has still to visit. \<^verbatim>\<open>Texture::bind\<close> is outside this file; it is
  recorded as a call. The unit given to \<^verbatim>\<open>glActiveTexture\<close> is written as its offset
  from \<^verbatim>\<open>GL_TEXTURE0\<close>.
\<close>
fun bindTextures_loop :: "nat \<Rightarrow> (int \<times> texture_ptr) list \<Rightarrow> world \<Rightarrow> world" where
  "bindTextures_loop i [] w = w"
| "bindTextures_loop i ((location, texture) # rest) w =
     (let index = GLsizei_cast (i + 1);
          w1 = gl (Uniform1i location index) w;
          w2 = glActiveTexture index w1;
          w3 = gl (Texture_bind texture) w2
      in bindTextures_loop (i + 1) rest w3)"

definition bindTextures :: "Shader \<Rightarrow> world \<Rightarrow> world" where
  "bindTextures s w = glActiveTexture 0 (bindTextures_loop 0 (m_textures s) w)"

definition unsupported_bind_line :: string where
  "unsupported_bind_line = ''Failed to bind or unbind shader: your system doesn'' @ [CHR 0x27] @
     ''t support shaders (you should test Shader::isAvailable() before trying to use the Shader class)''"

definition bind :: "decls \<Rightarrow> driver \<Rightarrow> Shader option \<Rightarrow> world \<Rightarrow> world" where
  "bind h d shader w =
     (let w1 = gl EnsureGlContext w;
          (available, w2) = isAvailable h d (isAvailable_default h) w1
      in if \<not> available then err unsupported_bind_line w2
         else
           (case shader of
              None \<Rightarrow> glUseProgramObject 0 w2
            | Some s \<Rightarrow>
                if m_shaderProgram s \<noteq> 0 then
                  (let w3 = glUseProgramObject (m_shaderProgram s) w2;
                       w4 = bindTextures s w3
                   in if m_currentTexture s \<noteq> -1
                      then gl (Uniform1i (m_currentTexture s) 0) w4
                      else w4)
                else glUseProgramObject 0 w2))"

subsection \<open>The overload set\<close>

text \<open>
  The argument of a \<^verbatim>\<open>setParameter\<close> call selects the overload; \<open>setParameter\<close> is that
  selection.
\<close>
datatype Param =
    P_float real
  | P_float2 real real
  | P_float3 real real real
  | P_float4 real real real real
  | P_Vector2f Vector2f
  | P_Vector3f Vector3f
  | P_Color Color
  | P_Transform Transform
  | P_Texture texture_ptr
  | P_CurrentTexture

fun setParameter :: "driver \<Rightarrow> string \<Rightarrow> Param \<Rightarrow> Shader \<Rightarrow> world \<Rightarrow> Shader \<times> world" where
  "setParameter d name (P_float x) s w = setParameter_1f d name x s w"
| "setParameter d name (P_float2 x y) s w = setParameter_2f d name x y s w"
| "setParameter d name (P_float3 x y z) s w = setParameter_3f d name x y z s w"
| "setParameter d name (P_float4 x y z t) s w = setParameter_4f d name x y z t s w"
| "setParameter d name (P_Vector2f v) s w = setParameter_Vector2f d name v s w"
| "setParameter d name (P_Vector3f v) s w = setParameter_Vector3f d name v s w"
| "setParameter d name (P_Color c) s w = setParameter_Color d name c s w"
| "setParameter d name (P_Transform t) s w = setParameter_Transform d name t s w"
| "setParameter d name (P_Texture t) s w = setParameter_Texture d name t s w"
| "setParameter d name P_CurrentTexture s w = setParameter_CurrentTexture d name s w"

text \<open>The overloads that write a value to the backend (all but the two texture ones).\<close>
fun is_value :: "Param \<Rightarrow> bool" where
  "is_value (P_Texture t) = False"
| "is_value P_CurrentTexture = False"
| "is_value p = True"

text \<open>The write an overload issues at a location.\<close>
fun value_write :: "Param \<Rightarrow> int \<Rightarrow> gl_call list" where
  "value_write (P_float x) l = [Uniform1f l x]"
| "value_write (P_float2 x y) l = [Uniform2f l x y]"
| "value_write (P_float3 x y z) l = [Uniform3f l x y z]"
| "value_write (P_float4 x y z t) l = [Uniform4f l x y z t]"
| "value_write (P_Vector2f (Vector2f x y)) l = [Uniform2f l x y]"
| "value_write (P_Vector3f (Vector3f x y z)) l = [Uniform3f l x y z]"
| "value_write (P_Color (Color r g b a)) l =
     [Uniform4f l (float_div255 r) (float_div255 g) (float_div255 b) (float_div255 a)]"
| "value_write (P_Transform t) l = [UniformMatrix4fv l t]"
| "value_write p l = []"

subsection \<open>A concrete process\<close>

text \<open>
  A process at its start, a backend that supports all stages, has four texture units,
  numbers its objects from 1, compiles every source but \<open>''bad''\<close>, links every program
  without a geometry stage other than \<open>''nolink''\<close>, and knows the uniforms \<open>''a''\<close>,
  \<open>''b''\<close>, \<open>''c''\<close>, \<open>''d''\<close> at locations 7, 3, 5, 9.
\<close>
definition start_world :: world where
  "start_world = \<lparr>gl_calls = [], gl_program = 0, gl_active_texture = 0, gl_created = 0,
     err_lines = [], vertexShaderAvailable = False, fragmentShaderAvailable = False,
     geometryShaderAvailable = False, isAvailable_available = None,
     getMaxTextureUnits_maxUnits = None\<rparr>"

definition some_decls :: decls where
  "some_decls = \<lparr>Vertex = 1, Geometry = 2, Fragment = 4, isAvailable_default = 5,
     getDefaultVertexShaderCode = ''void main() {}''\<rparr>"

definition some_driver :: driver where
  "some_driver = \<lparr>GLEXT_multitexture = True, GLEXT_shading_language_100 = True,
     GLEXT_shader_objects = True, GLEXT_vertex_shader = True, GLEXT_fragment_shader = True,
     GLEXT_geometry_shader4 = True, max_combined_texture_image_units = 4,
     new_handle = (\<lambda>n. word_of_nat (Suc n)),
     compile_status = (\<lambda>stage code. code \<noteq> ''bad''),
     compile_log = (\<lambda>stage code. ''syntax error''),
     link_status = (\<lambda>attached. (GL_FRAGMENT_SHADER, ''nolink'') \<notin> set attached),
     link_log = (\<lambda>attached. ''link error''),
     uniform_location = (\<lambda>program name.
        if name = ''a'' then 7 else if name = ''b'' then 3
        else if name = ''c'' then 5 else if name = ''d'' then 9 else -1)\<rparr>"

text \<open>The same backend without geometry stages.\<close>
definition no_geometry_driver :: driver where
  "no_geometry_driver = some_driver\<lparr>GLEXT_geometry_shader4 := False\<rparr>"

text \<open>The same backend without shaders at all.\<close>
definition no_shader_driver :: driver where
  "no_shader_driver = some_driver\<lparr>GLEXT_shader_objects := False\<rparr>"

text \<open>An instance holding program 1 with nothing set on it, and one with two textures.\<close>
definition linked_shader :: Shader where
  "linked_shader = \<lparr>m_shaderProgram = 1, m_currentTexture = -1, m_textures = [], m_params = []\<rparr>"

definition textured_shader :: Shader where
  "textured_shader = \<lparr>m_shaderProgram = 1, m_currentTexture = 9,
     m_textures = [(3, 20), (7, 10)], m_params = [(''d'', 9), (''b'', 3), (''a'', 7)]\<rparr>"

subsection \<open>Notions used by the properties\<close>

text \<open>A texture table as \<^verbatim>\<open>std::map\<close> keeps it: keys strictly increasing, so no key twice.\<close>
definition table_ok :: "(int \<times> 'v) list \<Rightarrow> bool" where
  "table_ok t = sorted_wrt (<) (map fst t)"

text \<open>The location \<open>getParamLocation\<close> returns for a name: the cached one, else the backend's.\<close>
definition resolve :: "driver \<Rightarrow> Shader \<Rightarrow> string \<Rightarrow> int" where
  "resolve d s name =
     (case map_of (m_params s) name of
        Some cached \<Rightarrow> cached
      | None \<Rightarrow> uniform_location d (m_shaderProgram s) (c_str name))"

text \<open>How often the texture-unit limit has been asked of the backend so far.\<close>
definition limit_queries :: "world \<Rightarrow> nat" where
  "limit_queries w = count_list (gl_calls w) GetIntegerv_MAX_COMBINED_TEXTURE_IMAGE_UNITS"

text \<open>
  The static of \<open>getMaxTextureUnits\<close> agrees with the calls issued: not initialised and
  never asked, or initialised with the backend's limit and asked once.
\<close>
definition limit_static_ok :: "driver \<Rightarrow> world \<Rightarrow> bool" where
  "limit_static_ok d w =
     (case getMaxTextureUnits_maxUnits w of
        None \<Rightarrow> limit_queries w = 0
      | Some m \<Rightarrow> m = max_combined_texture_image_units d \<and> limit_queries w = 1)"

text \<open>The instance after \<open>getParamLocation\<close> has resolved a name: the cache holds it.\<close>
definition cache_after :: "driver \<Rightarrow> string \<Rightarrow> Shader \<Rightarrow> Shader" where
  "cache_after d name s =
     (if map_of (m_params s) name = None
      then s\<lparr>m_params := (name, resolve d s name) # m_params s\<rparr> else s)"

text \<open>The stage mask \<open>compile\<close> asks \<open>isAvailable\<close> about, and the vertex source it compiles.\<close>
definition requested_stages :: "decls \<Rightarrow> string option \<Rightarrow> string option \<Rightarrow> string option \<Rightarrow> int" where
  "requested_stages h v g f =
     (if v \<noteq> None then Vertex h else 0) OR (if g \<noteq> None then Geometry h else 0) OR
     (if f \<noteq> None then Fragment h else 0)"

definition vertex_code :: "decls \<Rightarrow> string option \<Rightarrow> string option \<Rightarrow> string option" where
  "vertex_code h v g = (if v = None \<and> g \<noteq> None then Some (getDefaultVertexShaderCode h) else v)"

text \<open>
  The availability flags as a call of \<open>isAvailable\<close> reads them: those the probe computes
  if it has not run yet, else those stored.
\<close>
definition basic_reported :: "driver \<Rightarrow> bool" where
  "basic_reported d =
     (GLEXT_multitexture d \<and> GLEXT_shading_language_100 d \<and> GLEXT_shader_objects d \<and>
      GLEXT_vertex_shader d \<and> GLEXT_fragment_shader d)"

definition vertex_flag :: "driver \<Rightarrow> world \<Rightarrow> bool" where
  "vertex_flag d w =
     (case isAvailable_available w of None \<Rightarrow> basic_reported d | Some _ \<Rightarrow> vertexShaderAvailable w)"

definition fragment_flag :: "driver \<Rightarrow> world \<Rightarrow> bool" where
  "fragment_flag d w =
     (case isAvailable_available w of None \<Rightarrow> basic_reported d | Some _ \<Rightarrow> fragmentShaderAvailable w)"

definition geometry_flag :: "driver \<Rightarrow> world \<Rightarrow> bool" where
  "geometry_flag d w =
     (case isAvailable_available w of None \<Rightarrow> GLEXT_geometry_shader4 d | Some _ \<Rightarrow> geometryShaderAvailable w)"

text \<open>The calls of the one-time probe, issued by the first \<open>isAvailable\<close> only.\<close>
definition probe_calls :: "world \<Rightarrow> gl_call list" where
  "probe_calls w =
     (case isAvailable_available w of
        None \<Rightarrow> [Context_create, EnsureExtensionsInit, Context_destroy]
      | Some _ \<Rightarrow> [])"

text \<open>A caller asking about several stage masks one after the other.\<close>
fun isAvailable_each :: "decls \<Rightarrow> driver \<Rightarrow> int list \<Rightarrow> world \<Rightarrow> bool list \<times> world" where
  "isAvailable_each h d [] w = ([], w)"
| "isAvailable_each h d (shaderTypes # rest) w =
     (let (r, w1) = isAvailable h d shaderTypes w;
          (rs, w2) = isAvailable_each h d rest w1
      in (r # rs, w2))"

text \<open>Every attached stage source compiles.\<close>
definition stages_compile :: "driver \<Rightarrow> (ShaderStage \<times> string) list \<Rightarrow> bool" where
  "stages_compile d att = list_all (\<lambda>(st, code). compile_status d st code) att"

section \<open>Properties\<close>

subsection \<open>The uniform-location cache\<close>

lemma getParamLocation_hit:
  "map_of (m_params s) name = Some l \<Longrightarrow> getParamLocation d name s w = (l, s, w)"
  by (simp add: getParamLocation_def)

lemma getParamLocation_miss:
  "map_of (m_params s) name = None \<Longrightarrow>
   getParamLocation d name s w =
     (uniform_location d (m_shaderProgram s) (c_str name),
      s\<lparr>m_params := (name, uniform_location d (m_shaderProgram s) (c_str name)) # m_params s\<rparr>,
      (if uniform_location d (m_shaderProgram s) (c_str name) = -1
       then err (not_found_line name) (gl (GetUniformLocation (m_shaderProgram s) (c_str name)) w)
       else gl (GetUniformLocation (m_shaderProgram s) (c_str name)) w))"
  by (simp add: getParamLocation_def glGetUniformLocation_def Let_def)

lemma getParamLocation_keeps:
  "map_of (m_params s) name = Some l \<Longrightarrow>
   map_of (m_params (fst (snd (getParamLocation d other s w)))) name = Some l"
  by (cases "map_of (m_params s) other") (auto simp: getParamLocation_hit getParamLocation_miss)

text \<open>
  Claim C4. The first \<open>getParamLocation\<close> for a name (the name is not in the cache) asks
  the backend exactly once, returns its answer, puts the answer into the cache whether it
  is a location or \<open>-1\<close>, and writes a diagnostic line only when it is \<open>-1\<close>. Every
  later call for the name, in any instance state whose cache still has that entry and in
  any world, returns the cached value and changes neither the instance nor the world: no
  backend call, no diagnostic. Looking up other names keeps the entry.
\<close>
theorem getParamLocation_idempotent:
  assumes "map_of (m_params s) name = None"
  shows "\<exists>s1 w1. getParamLocation d name s w = (uniform_location d (m_shaderProgram s) (c_str name), s1, w1)
    \<and> gl_calls w1 = gl_calls w @ [GetUniformLocation (m_shaderProgram s) (c_str name)]
    \<and> map_of (m_params s1) name = Some (uniform_location d (m_shaderProgram s) (c_str name))
    \<and> err_lines w1 = err_lines w @
         (if uniform_location d (m_shaderProgram s) (c_str name) = -1 then [not_found_line name] else [])
    \<and> (\<forall>s2 w2. map_of (m_params s2) name = map_of (m_params s1) name \<longrightarrow>
          getParamLocation d name s2 w2 = (uniform_location d (m_shaderProgram s) (c_str name), s2, w2))
    \<and> (\<forall>other w2. map_of (m_params (fst (snd (getParamLocation d other s1 w2)))) name
          = map_of (m_params s1) name)"
  using assms
  by (auto simp: getParamLocation_miss getParamLocation_hit getParamLocation_keeps gl_def err_def)

theorem getParamLocation_idempotent_witness:
  "map_of (m_params linked_shader) ''zz'' = None \<and>
   (\<exists>s1 w1. getParamLocation some_driver ''zz'' linked_shader start_world = (-1, s1, w1)
     \<and> gl_calls w1 = [GetUniformLocation 1 ''zz'']
     \<and> err_lines w1 = [not_found_line ''zz'']
     \<and> getParamLocation some_driver ''zz'' s1 w1 = (-1, s1, w1))"
  using getParamLocation_idempotent [of linked_shader "''zz''" some_driver start_world]
  by (auto simp: linked_shader_def some_driver_def start_world_def c_str_def)

subsection \<open>Setting parameters without a program\<close>

lemma setParameter_write_zero:
  "m_shaderProgram s = 0 \<Longrightarrow> setParameter_write d name wr s w = (s, w)"
  by (simp add: setParameter_write_def)

lemma setParameter_Texture_zero:
  "m_shaderProgram s = 0 \<Longrightarrow> setParameter_Texture d name t s w = (s, w)"
  by (simp add: setParameter_Texture_def)

lemma setParameter_CurrentTexture_zero:
  "m_shaderProgram s = 0 \<Longrightarrow> setParameter_CurrentTexture d name s w = (s, w)"
  by (simp add: setParameter_CurrentTexture_def)

text \<open>
  Claim C10. On an instance whose program handle is 0, every overload of
  \<open>setParameter\<close> returns the instance and the world as they were: no field of the
  instance changes, no call reaches the backend, and no line is written to the error
  stream.
\<close>
theorem setParameter_without_program:
  assumes "getNativeHandle s = 0"
  shows "setParameter d name p s w = (s, w)"
proof -
  from assms have z: "m_shaderProgram s = 0" by (simp add: getNativeHandle_def)
  show ?thesis
  proof (cases p)
    case (P_Vector2f v)
    then show ?thesis using z
      by (cases v) (simp add: setParameter_2f_def setParameter_write_zero)
  next
    case (P_Vector3f v)
    then show ?thesis using z
      by (cases v) (simp add: setParameter_3f_def setParameter_write_zero)
  next
    case (P_Color c)
    then show ?thesis using z
      by (cases c) (simp add: setParameter_4f_def setParameter_write_zero)
  qed (simp_all add: z setParameter_1f_def setParameter_2f_def setParameter_3f_def
        setParameter_4f_def setParameter_Transform_def setParameter_write_zero
        setParameter_Texture_zero setParameter_CurrentTexture_zero)
qed

theorem setParameter_without_program_witness:
  "getNativeHandle Shader_new = 0 \<and>
   setParameter some_driver ''a'' (P_Texture 10) Shader_new start_world = (Shader_new, start_world) \<and>
   setParameter some_driver ''a'' (P_Color (Color 255 0 0 255)) Shader_new start_world = (Shader_new, start_world)"
  using setParameter_without_program [of Shader_new some_driver "''a''" "P_Texture 10" start_world]
    setParameter_without_program [of Shader_new some_driver "''a''" "P_Color (Color 255 0 0 255)" start_world]
  by (simp add: Shader_new_def getNativeHandle_def)

subsection \<open>Setting a value on a program\<close>

lemma setParameter_write_calls:
  assumes "m_shaderProgram s \<noteq> 0"
  shows "\<exists>s1 w1. setParameter_write d name wr s w = (s1, w1) \<and> gl_program w1 = gl_program w \<and>
     gl_calls w1 = gl_calls w @
       [EnsureGlContext, GetHandle_PROGRAM_OBJECT, UseProgramObject (m_shaderProgram s)] @
       (if map_of (m_params s) name = None then [GetUniformLocation (m_shaderProgram s) (c_str name)] else []) @
       (if fst (getParamLocation d name s w) \<noteq> -1 then [wr (fst (getParamLocation d name s w))] else []) @
       [UseProgramObject (gl_program w)]"
proof (cases "map_of (m_params s) name")
  case None
  then show ?thesis using assms
    by (simp add: setParameter_write_def getParamLocation_miss Let_def gl_def err_def
        glGetHandle_PROGRAM_OBJECT_def glUseProgramObject_def)
next
  case (Some l)
  then show ?thesis using assms
    by (simp add: setParameter_write_def getParamLocation_hit Let_def gl_def err_def
        glGetHandle_PROGRAM_OBJECT_def glUseProgramObject_def)
qed

text \<open>
  Claim C7. On an instance with a program, every value overload of \<open>setParameter\<close>
  (one to four floats, the two vectors, the colour, the matrix) reads the current program
  first, makes the instance's program current, resolves the name, issues its write when
  the location is not \<open>-1\<close>, and last makes the program it read current again: the
  current program after the call is the one before it, found or not.
\<close>
theorem setParameter_restores_program:
  assumes "m_shaderProgram s \<noteq> 0" and "is_value p"
  shows "\<exists>s1 w1. setParameter d name p s w = (s1, w1) \<and> gl_program w1 = gl_program w \<and>
     gl_calls w1 = gl_calls w @
       [EnsureGlContext, GetHandle_PROGRAM_OBJECT, UseProgramObject (m_shaderProgram s)] @
       (if map_of (m_params s) name = None then [GetUniformLocation (m_shaderProgram s) (c_str name)] else []) @
       (if fst (getParamLocation d name s w) \<noteq> -1
        then value_write p (fst (getParamLocation d name s w)) else []) @
       [UseProgramObject (gl_program w)]"
proof (cases p)
  case (P_float x)
  then show ?thesis
    using setParameter_write_calls [OF assms(1), of d name "\<lambda>l. Uniform1f l x" w]
    by (auto simp add: setParameter_1f_def)
next
  case (P_float2 x y)
  then show ?thesis
    using setParameter_write_calls [OF assms(1), of d name "\<lambda>l. Uniform2f l x y" w]
    by (auto simp add: setParameter_2f_def)
next
  case (P_float3 x y z)
  then show ?thesis
    using setParameter_write_calls [OF assms(1), of d name "\<lambda>l. Uniform3f l x y z" w]
    by (auto simp add: setParameter_3f_def)
next
  case (P_float4 x y z t)
  then show ?thesis
    using setParameter_write_calls [OF assms(1), of d name "\<lambda>l. Uniform4f l x y z t" w]
    by (auto simp add: setParameter_4f_def)
next
  case (P_Vector2f v)
  obtain x y where v: "v = Vector2f x y" by (cases v)
  show ?thesis
    using setParameter_write_calls [OF assms(1), of d name "\<lambda>l. Uniform2f l x y" w]
    by (auto simp add: P_Vector2f v setParameter_2f_def)
next
  case (P_Vector3f v)
  obtain x y z where v: "v = Vector3f x y z" by (cases v)
  show ?thesis
    using setParameter_write_calls [OF assms(1), of d name "\<lambda>l. Uniform3f l x y z" w]
    by (auto simp add: P_Vector3f v setParameter_3f_def)
next
  case (P_Color c)
  obtain r g b a where c: "c = Color r g b a" by (cases c)
  show ?thesis
    using setParameter_write_calls [OF assms(1), of d name
        "\<lambda>l. Uniform4f l (float_div255 r) (float_div255 g) (float_div255 b) (float_div255 a)" w]
    by (auto simp add: P_Color c setParameter_4f_def)
next
  case (P_Transform t)
  then show ?thesis
    using setParameter_write_calls [OF assms(1), of d name "\<lambda>l. UniformMatrix4fv l t" w]
    by (auto simp add: setParameter_Transform_def)
next
  case (P_Texture t)
  with assms(2) show ?thesis by simp
next
  case P_CurrentTexture
  with assms(2) show ?thesis by simp
qed

theorem setParameter_restores_program_witness:
  "m_shaderProgram linked_shader \<noteq> 0 \<and> is_value (P_float2 1 2) \<and>
   (\<exists>s1 w1. setParameter some_driver ''a'' (P_float2 1 2) linked_shader (start_world\<lparr>gl_program := 6\<rparr>) = (s1, w1)
      \<and> gl_program w1 = 6
      \<and> gl_calls w1 = [EnsureGlContext, GetHandle_PROGRAM_OBJECT, UseProgramObject 1,
           GetUniformLocation 1 ''a'', Uniform2f 7 1 2, UseProgramObject 6])"
  using setParameter_restores_program [of linked_shader "P_float2 1 2" some_driver "''a''"
      "start_world\<lparr>gl_program := 6\<rparr>"]
  by (simp add: linked_shader_def start_world_def some_driver_def getParamLocation_miss c_str_def)

subsection \<open>The texture table\<close>

lemma table_assign_keys: "fst ` set (table_assign k v t) = insert k (fst ` set t)"
proof (induction t)
  case Nil
  then show ?case by simp
next
  case (Cons a t)
  obtain k' v' where a: "a = (k', v')" by (cases a)
  show ?case using Cons.IH by (simp add: a insert_commute)
qed

lemma table_assign_ok: "table_ok t \<Longrightarrow> table_ok (table_assign k v t)"
proof (induction t)
  case Nil
  then show ?case by (simp add: table_ok_def)
next
  case (Cons a t)
  obtain k' v' where a: "a = (k', v')" by (cases a)
  from Cons.prems have ok: "table_ok t" and lt: "\<forall>x\<in>set t. k' < fst x"
    by (auto simp: table_ok_def a)
  have keys: "fst ` set (table_assign k v t) = insert k (fst ` set t)" by (rule table_assign_keys)
  show ?case
  proof (cases "k < k'")
    case True
    with Cons.prems show ?thesis by (auto simp: table_ok_def a)
  next
    case False
    show ?thesis
    proof (cases "k = k'")
      case True
      with Cons.prems show ?thesis by (auto simp: table_ok_def a)
    next
      case ne: False
      with False have gt: "k' < k" by simp
      have "\<forall>x\<in>set (table_assign k v t). k' < fst x"
      proof
        fix x assume "x \<in> set (table_assign k v t)"
        then have "fst x \<in> insert k (fst ` set t)" using keys by (metis imageI)
        then show "k' < fst x" using gt lt by auto
      qed
      with Cons.IH [OF ok] False ne show ?thesis by (simp add: table_ok_def a)
    qed
  qed
qed

lemma map_of_table_assign: "table_ok t \<Longrightarrow> map_of (table_assign k v t) = (map_of t)(k \<mapsto> v)"
proof (induction t)
  case Nil
  then show ?case by simp
next
  case (Cons a t)
  obtain k' v' where a: "a = (k', v')" by (cases a)
  from Cons.prems have ok: "table_ok t" by (auto simp: table_ok_def a)
  show ?case using Cons.IH [OF ok] by (auto simp: a fun_upd_twist)
qed

lemma length_table_assign:
  "table_ok t \<Longrightarrow> length (table_assign k v t) = (if map_of t k = None then Suc (length t) else length t)"
proof (induction t)
  case Nil
  then show ?case by simp
next
  case (Cons a t)
  obtain k' v' where a: "a = (k', v')" by (cases a)
  from Cons.prems have ok: "table_ok t" and lt: "\<forall>x\<in>set t. k' < fst x"
    by (auto simp: table_ok_def a)
  have "k < k' \<Longrightarrow> map_of t k = None"
    using lt by (force simp: map_of_eq_None_iff)
  moreover have "k = k' \<Longrightarrow> map_of t k = None"
    using lt by (force simp: map_of_eq_None_iff)
  ultimately show ?case using Cons.IH [OF ok] by (auto simp: a)
qed

subsection \<open>Setting a texture\<close>

lemma table_assign_same_keys:
  "table_ok t \<Longrightarrow> map_of t k = Some old \<Longrightarrow> map fst (table_assign k v t) = map fst t"
proof (induction t)
  case Nil
  then show ?case by simp
next
  case (Cons a t)
  obtain k' v' where a: "a = (k', v')" by (cases a)
  from Cons.prems have ok: "table_ok t" and lt: "\<forall>x\<in>set t. k' < fst x"
    by (auto simp: table_ok_def a)
  have nolt: "\<not> k < k'"
  proof
    assume "k < k'"
    with Cons.prems(2) a have "map_of t k = Some old" by simp
    then have "(k, old) \<in> set t" by (rule map_of_SomeD)
    with lt have "k' < k" by force
    with \<open>k < k'\<close> show False by simp
  qed
  show ?case
  proof (cases "k = k'")
    case True
    then show ?thesis by (simp add: a)
  next
    case False
    with Cons.prems(2) a have "map_of t k = Some old" by simp
    with Cons.IH [OF ok] False nolt show ?thesis by (simp add: a)
  qed
qed

lemma getParamLocation_fst: "fst (getParamLocation d name s w) = resolve d s name"
  by (cases "map_of (m_params s) name")
     (simp_all add: getParamLocation_hit getParamLocation_miss resolve_def)

lemma getParamLocation_shader:
  "fst (snd (getParamLocation d name s w)) =
     (if map_of (m_params s) name = None
      then s\<lparr>m_params := (name, resolve d s name) # m_params s\<rparr> else s)"
  by (cases "map_of (m_params s) name")
     (simp_all add: getParamLocation_hit getParamLocation_miss resolve_def)

lemma getParamLocation_world:
  "snd (snd (getParamLocation d name s w)) =
     (if map_of (m_params s) name = None
      then w\<lparr>gl_calls := gl_calls w @ [GetUniformLocation (m_shaderProgram s) (c_str name)],
              err_lines := err_lines w @ (if resolve d s name = -1 then [not_found_line name] else [])\<rparr>
      else w)"
  by (cases "map_of (m_params s) name")
     (simp_all add: getParamLocation_hit getParamLocation_miss resolve_def gl_def err_def)

lemma resolve_cached:
  "resolve d (s\<lparr>m_params := (name, resolve d s name) # m_params s\<rparr>) n = resolve d s n"
  by (auto simp: resolve_def split: option.splits)

lemma resolve_textures [simp]: "resolve d (s\<lparr>m_textures := t\<rparr>) n = resolve d s n"
  by (simp add: resolve_def split: option.splits)

lemma getMaxTextureUnits_fst:
  "limit_static_ok d w \<Longrightarrow> fst (getMaxTextureUnits d w) = max_combined_texture_image_units d"
  by (auto simp: getMaxTextureUnits_def limit_static_ok_def checkMaxTextureUnits_def gl_def Let_def
      split: option.splits)

lemma getMaxTextureUnits_ok:
  "limit_static_ok d w \<Longrightarrow> limit_static_ok d (snd (getMaxTextureUnits d w))"
  by (auto simp: getMaxTextureUnits_def limit_static_ok_def checkMaxTextureUnits_def gl_def Let_def
      limit_queries_def split: option.splits)

lemma getMaxTextureUnits_err:
  "err_lines (snd (getMaxTextureUnits d w)) = err_lines w"
  by (auto simp: getMaxTextureUnits_def checkMaxTextureUnits_def gl_def Let_def
      split: option.splits)

lemma limit_static_ok_gl:
  "count_list cs GetIntegerv_MAX_COMBINED_TEXTURE_IMAGE_UNITS = 0 \<Longrightarrow>
   limit_static_ok d (w\<lparr>gl_calls := gl_calls w @ cs\<rparr>) = limit_static_ok d w"
  by (simp add: limit_static_ok_def limit_queries_def split: option.splits)

lemma limit_static_ok_err [simp]:
  "limit_static_ok d (w\<lparr>err_lines := e\<rparr>) = limit_static_ok d w"
  by (simp add: limit_static_ok_def limit_queries_def split: option.splits)

lemma cache_after_fields [simp]:
  "m_shaderProgram (cache_after d name s) = m_shaderProgram s"
  "m_currentTexture (cache_after d name s) = m_currentTexture s"
  "m_textures (cache_after d name s) = m_textures s"
  by (simp_all add: cache_after_def)

lemma resolve_cache_after [simp]: "resolve d (cache_after d name s) n = resolve d s n"
  by (simp add: cache_after_def resolve_cached)

lemma setParameter_Texture_unfold:
  assumes "m_shaderProgram s \<noteq> 0" and "limit_static_ok d w"
  shows "\<exists>w2 w3. limit_static_ok d w2 \<and> limit_static_ok d w3
     \<and> err_lines w2 = err_lines w @
          (if map_of (m_params s) name = None \<and> resolve d s name = -1 then [not_found_line name] else [])
     \<and> err_lines w3 = err_lines w2
     \<and> setParameter_Texture d name tex s w =
     (if resolve d s name \<noteq> -1 then
        (case map_of (m_textures s) (resolve d s name) of
           None \<Rightarrow>
             (if length (m_textures s) + 1 \<ge> size_t_cast (max_combined_texture_image_units d)
              then (cache_after d name s, err (no_unit_line name) w3)
              else ((cache_after d name s)\<lparr>m_textures := table_assign (resolve d s name) tex (m_textures s)\<rparr>, w3))
         | Some _ \<Rightarrow>
             ((cache_after d name s)\<lparr>m_textures := table_assign (resolve d s name) tex (m_textures s)\<rparr>, w2))
      else (cache_after d name s, w2))"
proof -
  let ?w1 = "gl EnsureGlContext w"
  define s1 where "s1 = cache_after d name s"
  define w2 where "w2 = snd (snd (getParamLocation d name s ?w1))"
  define l where "l = resolve d s name"
  have g: "getParamLocation d name s ?w1 = (l, s1, w2)"
    by (simp add: prod_eq_iff getParamLocation_fst getParamLocation_shader w2_def s1_def l_def
        cache_after_def)
  have w2: "limit_static_ok d w2"
    using assms(2) unfolding w2_def by (simp add: getParamLocation_world gl_def limit_static_ok_gl)
  have e2: "err_lines w2 = err_lines w @
          (if map_of (m_params s) name = None \<and> resolve d s name = -1 then [not_found_line name] else [])"
    unfolding w2_def by (simp add: getParamLocation_world gl_def)
  have t: "m_textures s1 = m_textures s" by (simp add: s1_def)
  obtain m w3 where mx: "getMaxTextureUnits d w2 = (m, w3)" by (cases "getMaxTextureUnits d w2")
  have m: "m = max_combined_texture_image_units d"
    using getMaxTextureUnits_fst [OF w2] mx by simp
  have w3: "limit_static_ok d w3" using getMaxTextureUnits_ok [OF w2] mx by simp
  have e3: "err_lines w3 = err_lines w2" using getMaxTextureUnits_err [of d w2] mx by simp
  have unf: "setParameter_Texture d name tex s w =
     (if l \<noteq> -1 then
        (case map_of (m_textures s) l of
           None \<Rightarrow>
             (if length (m_textures s) + 1 \<ge> size_t_cast m
              then (s1, err (no_unit_line name) w3)
              else (s1\<lparr>m_textures := table_assign l tex (m_textures s)\<rparr>, w3))
         | Some _ \<Rightarrow>
             (s1\<lparr>m_textures := table_assign l tex (m_textures s)\<rparr>, w2))
      else (s1, w2))"
    using assms(1) by (simp add: setParameter_Texture_def g mx t split: option.splits)
  show ?thesis
    using w2 w3 e2 e3 unf unfolding m l_def s1_def by blast
qed

lemma setParameter_Texture_inserts:
  assumes "m_shaderProgram s \<noteq> 0" and "limit_static_ok d w" and "table_ok (m_textures s)"
    and "resolve d s name \<noteq> -1" and "map_of (m_textures s) (resolve d s name) = None"
    and "length (m_textures s) + 1 < size_t_cast (max_combined_texture_image_units d)"
  shows "\<exists>s' w'. setParameter_Texture d name tex s w = (s', w')
    \<and> m_shaderProgram s' = m_shaderProgram s \<and> m_currentTexture s' = m_currentTexture s
    \<and> m_textures s' = table_assign (resolve d s name) tex (m_textures s)
    \<and> (\<forall>n. resolve d s' n = resolve d s n)
    \<and> limit_static_ok d w' \<and> err_lines w' = err_lines w"
  using setParameter_Texture_unfold [OF assms(1,2), of name tex] assms(4,5,6)
  by (auto simp: not_le)

lemma setParameter_Texture_rejects:
  assumes "m_shaderProgram s \<noteq> 0" and "limit_static_ok d w"
    and "resolve d s name \<noteq> -1" and "map_of (m_textures s) (resolve d s name) = None"
    and "length (m_textures s) + 1 \<ge> size_t_cast (max_combined_texture_image_units d)"
  shows "\<exists>s' w'. setParameter_Texture d name tex s w = (s', w')
    \<and> m_shaderProgram s' = m_shaderProgram s \<and> m_currentTexture s' = m_currentTexture s
    \<and> m_textures s' = m_textures s
    \<and> (\<forall>n. resolve d s' n = resolve d s n)
    \<and> limit_static_ok d w' \<and> err_lines w' = err_lines w @ [no_unit_line name]
    \<and> s' = cache_after d name s"
  using setParameter_Texture_unfold [OF assms(1,2), of name tex] assms(3,4,5)
  by (auto simp: err_def)

lemma setParameter_Texture_replaces_eq:
  assumes "m_shaderProgram s \<noteq> 0"
    and "resolve d s name \<noteq> -1" and "map_of (m_textures s) (resolve d s name) = Some old"
  shows "setParameter_Texture d name tex s w =
    ((cache_after d name s)\<lparr>m_textures := table_assign (resolve d s name) tex (m_textures s)\<rparr>,
     snd (snd (getParamLocation d name s (gl EnsureGlContext w))))"
proof -
  let ?w1 = "gl EnsureGlContext w"
  define w2 where "w2 = snd (snd (getParamLocation d name s ?w1))"
  have g: "getParamLocation d name s ?w1 = (resolve d s name, cache_after d name s, w2)"
    by (simp add: prod_eq_iff getParamLocation_fst getParamLocation_shader w2_def cache_after_def)
  show ?thesis
    using assms unfolding w2_def [symmetric]
    by (simp add: setParameter_Texture_def g)
qed

lemma setParameter_Textures_all_inserted:
  assumes "m_shaderProgram s \<noteq> 0" and "table_ok (m_textures s)" and "limit_static_ok d w"
    and "distinct (map (\<lambda>c. resolve d s (fst c)) calls)"
    and "\<forall>c\<in>set calls. resolve d s (fst c) \<noteq> -1 \<and> map_of (m_textures s) (resolve d s (fst c)) = None"
    and "length (m_textures s) + length calls < size_t_cast (max_combined_texture_image_units d)"
  shows "\<exists>s' w'. setParameter_Textures d calls s w = (s', w')
    \<and> m_shaderProgram s' = m_shaderProgram s \<and> m_currentTexture s' = m_currentTexture s
    \<and> table_ok (m_textures s')
    \<and> length (m_textures s') = length (m_textures s) + length calls
    \<and> (\<forall>k. map_of (m_textures s') k =
          (case map_of (map (\<lambda>c. (resolve d s (fst c), snd c)) calls) k of
             Some t \<Rightarrow> Some t | None \<Rightarrow> map_of (m_textures s) k))
    \<and> (\<forall>n. resolve d s' n = resolve d s n)
    \<and> limit_static_ok d w' \<and> err_lines w' = err_lines w"
  using assms
proof (induction calls arbitrary: s w)
  case Nil
  then show ?case by simp
next
  case (Cons c calls)
  obtain name tex where c: "c = (name, tex)" by (cases c)
  let ?l = "resolve d s name"
  from Cons.prems(5) have l: "?l \<noteq> -1" and free: "map_of (m_textures s) ?l = None"
    by (simp_all add: c)
  from Cons.prems(6) have room: "length (m_textures s) + 1 < size_t_cast (max_combined_texture_image_units d)"
    by simp
  obtain s1 w1 where step: "setParameter_Texture d name tex s w = (s1, w1)"
    and p1: "m_shaderProgram s1 = m_shaderProgram s" and c1: "m_currentTexture s1 = m_currentTexture s"
    and t1: "m_textures s1 = table_assign ?l tex (m_textures s)"
    and r1: "\<forall>n. resolve d s1 n = resolve d s n"
    and ok1: "limit_static_ok d w1" and e1: "err_lines w1 = err_lines w"
    using setParameter_Texture_inserts [OF Cons.prems(1) Cons.prems(3) Cons.prems(2) l free room, of tex]
    by blast
  have tok1: "table_ok (m_textures s1)" using Cons.prems(2) by (simp add: t1 table_assign_ok)
  have len1: "length (m_textures s1) = Suc (length (m_textures s))"
    using Cons.prems(2) free by (simp add: t1 length_table_assign)
  have map1: "map_of (m_textures s1) = (map_of (m_textures s))(?l \<mapsto> tex)"
    using Cons.prems(2) by (simp add: t1 map_of_table_assign)
  have notin: "?l \<notin> (\<lambda>c. resolve d s (fst c)) ` set calls"
    using Cons.prems(4) by (simp add: c)
  have A: "m_shaderProgram s1 \<noteq> 0" using Cons.prems(1) p1 by simp
  have B: "distinct (map (\<lambda>c. resolve d s1 (fst c)) calls)"
    using Cons.prems(4) r1 by simp
  have C: "\<forall>c\<in>set calls. resolve d s1 (fst c) \<noteq> -1 \<and> map_of (m_textures s1) (resolve d s1 (fst c)) = None"
  proof
    fix x assume x: "x \<in> set calls"
    with Cons.prems(5) have "resolve d s (fst x) \<noteq> -1" and "map_of (m_textures s) (resolve d s (fst x)) = None"
      by simp_all
    moreover from x notin have "resolve d s (fst x) \<noteq> ?l" by force
    ultimately show "resolve d s1 (fst x) \<noteq> -1 \<and> map_of (m_textures s1) (resolve d s1 (fst x)) = None"
      using r1 by (simp add: map1)
  qed
  have D: "length (m_textures s1) + length calls < size_t_cast (max_combined_texture_image_units d)"
    using Cons.prems(6) len1 by simp
  obtain s' w' where rest: "setParameter_Textures d calls s1 w1 = (s', w')"
    and p': "m_shaderProgram s' = m_shaderProgram s1" and c': "m_currentTexture s' = m_currentTexture s1"
    and tok': "table_ok (m_textures s')"
    and len': "length (m_textures s') = length (m_textures s1) + length calls"
    and map': "\<forall>k. map_of (m_textures s') k =
          (case map_of (map (\<lambda>c. (resolve d s1 (fst c), snd c)) calls) k of
             Some t \<Rightarrow> Some t | None \<Rightarrow> map_of (m_textures s1) k)"
    and r': "\<forall>n. resolve d s' n = resolve d s1 n"
    and ok': "limit_static_ok d w'" and e': "err_lines w' = err_lines w1"
    using Cons.IH [OF A tok1 ok1 B C D] by blast
  have same: "map (\<lambda>c. (resolve d s1 (fst c), snd c)) calls = map (\<lambda>c. (resolve d s (fst c), snd c)) calls"
    using r1 by simp
  have none: "map_of (map (\<lambda>c. (resolve d s (fst c), snd c)) calls) ?l = None"
    using notin by (force simp: map_of_eq_None_iff)
  have mapfin: "\<forall>k. map_of (m_textures s') k =
          (case map_of (map (\<lambda>c. (resolve d s (fst c), snd c)) (c # calls)) k of
             Some t \<Rightarrow> Some t | None \<Rightarrow> map_of (m_textures s) k)"
  proof
    fix k
    show "map_of (m_textures s') k =
          (case map_of (map (\<lambda>c. (resolve d s (fst c), snd c)) (c # calls)) k of
             Some t \<Rightarrow> Some t | None \<Rightarrow> map_of (m_textures s) k)"
    proof (cases "k = ?l")
      case True
      then show ?thesis using map' none by (simp add: same map1 c split: option.splits)
    next
      case False
      then show ?thesis using map' by (simp add: same map1 c split: option.splits)
    qed
  qed
  have run: "setParameter_Textures d (c # calls) s w = (s', w')"
    by (simp add: c step rest)
  show ?case
    using run p' p1 c' c1 tok' len' len1 mapfin r' r1 ok' e' e1 by simp
qed

subsection \<open>Availability\<close>

lemma isAvailable_world:
  "snd (isAvailable h d m w) =
     (case isAvailable_available w of
        None \<Rightarrow> w\<lparr>gl_calls := gl_calls w @ [Mutex_lock, Context_create, EnsureExtensionsInit, Context_destroy, Mutex_unlock],
                 vertexShaderAvailable := basic_reported d,
                 fragmentShaderAvailable := basic_reported d,
                 geometryShaderAvailable := GLEXT_geometry_shader4 d,
                 isAvailable_available := Some (basic_reported d)\<rparr>
      | Some _ \<Rightarrow> w\<lparr>gl_calls := gl_calls w @ [Mutex_lock, Mutex_unlock]\<rparr>)"
  by (simp add: isAvailable_def checkShadersAvailable_def gl_def Let_def basic_reported_def
      split: option.splits)

lemma isAvailable_fst:
  "fst (isAvailable h d m w) =
     (\<not> (m AND Vertex h \<noteq> 0 \<and> \<not> vertex_flag d w) \<and>
      \<not> (m AND Fragment h \<noteq> 0 \<and> \<not> fragment_flag d w) \<and>
      \<not> (m AND Geometry h \<noteq> 0 \<and> \<not> geometry_flag d w))"
  by (simp add: isAvailable_def checkShadersAvailable_def gl_def Let_def basic_reported_def
      vertex_flag_def fragment_flag_def geometry_flag_def split: option.splits)

lemma isAvailable_flags:
  "vertex_flag d (snd (isAvailable h d m w)) = vertex_flag d w"
  "fragment_flag d (snd (isAvailable h d m w)) = fragment_flag d w"
  "geometry_flag d (snd (isAvailable h d m w)) = geometry_flag d w"
  "isAvailable_available (snd (isAvailable h d m w)) \<noteq> None"
  by (simp_all add: isAvailable_world vertex_flag_def fragment_flag_def geometry_flag_def
      split: option.splits)

lemma isAvailable_keeps:
  "gl_program (snd (isAvailable h d m w)) = gl_program w"
  "gl_active_texture (snd (isAvailable h d m w)) = gl_active_texture w"
  "gl_created (snd (isAvailable h d m w)) = gl_created w"
  "err_lines (snd (isAvailable h d m w)) = err_lines w"
  "getMaxTextureUnits_maxUnits (snd (isAvailable h d m w)) = getMaxTextureUnits_maxUnits w"
  "gl_calls (snd (isAvailable h d m w)) = gl_calls w @ [Mutex_lock] @ probe_calls w @ [Mutex_unlock]"
  by (simp_all add: isAvailable_world probe_calls_def split: option.splits)

subsection \<open>Compiling\<close>

lemma gl_fields:
  "gl_calls (gl c w) = gl_calls w @ [c]"
  "gl_program (gl c w) = gl_program w"
  "gl_active_texture (gl c w) = gl_active_texture w"
  "gl_created (gl c w) = gl_created w"
  "err_lines (gl c w) = err_lines w"
  "vertexShaderAvailable (gl c w) = vertexShaderAvailable w"
  "fragmentShaderAvailable (gl c w) = fragmentShaderAvailable w"
  "geometryShaderAvailable (gl c w) = geometryShaderAvailable w"
  "isAvailable_available (gl c w) = isAvailable_available w"
  "getMaxTextureUnits_maxUnits (gl c w) = getMaxTextureUnits_maxUnits w"
  by (simp_all add: gl_def)

lemma err_fields:
  "gl_calls (err l w) = gl_calls w"
  "gl_program (err l w) = gl_program w"
  "gl_active_texture (err l w) = gl_active_texture w"
  "gl_created (err l w) = gl_created w"
  "err_lines (err l w) = err_lines w @ [l]"
  "vertexShaderAvailable (err l w) = vertexShaderAvailable w"
  "fragmentShaderAvailable (err l w) = fragmentShaderAvailable w"
  "geometryShaderAvailable (err l w) = geometryShaderAvailable w"
  "isAvailable_available (err l w) = isAvailable_available w"
  "getMaxTextureUnits_maxUnits (err l w) = getMaxTextureUnits_maxUnits w"
  by (simp_all add: err_def)

lemma compileStage_fst: "fst (compileStage d st code p w) = compile_status d st code"
  by (simp add: compileStage_def Let_def case_prod_beta)

lemma compileStage_opt_fst:
  "fst (compileStage_opt d st code p w) = (case code of None \<Rightarrow> True | Some c \<Rightarrow> compile_status d st c)"
  by (simp add: compileStage_opt_def compileStage_fst split: option.splits)

lemma linkProgram_fst: "fst (linkProgram d att p s w) = link_status d att"
  by (simp add: linkProgram_def Let_def)

lemma linkProgram_shader:
  "fst (snd (linkProgram d att p s w)) = (if link_status d att then s\<lparr>m_shaderProgram := p\<rparr> else s)"
  by (simp add: linkProgram_def Let_def)

lemma stages_compile_attached:
  "stages_compile d (attached_stages vc g f) =
     ((case vc of None \<Rightarrow> True | Some c \<Rightarrow> compile_status d GL_VERTEX_SHADER c) \<and>
      (case g of None \<Rightarrow> True | Some c \<Rightarrow> compile_status d GL_GEOMETRY_SHADER c) \<and>
      (case f of None \<Rightarrow> True | Some c \<Rightarrow> compile_status d GL_FRAGMENT_SHADER c))"
  by (simp add: stages_compile_def attached_stages_def split: option.splits)

lemma compile_unfold:
  "compile h d v g f s w =
     (let w1 = gl EnsureGlContext w;
          (available, w2) = isAvailable h d (requested_stages h v g f) w1
      in if \<not> available then (False, s, err unsupported_create_line w2)
         else
           (let (s1, w3) = (if m_shaderProgram s \<noteq> 0
                            then (s\<lparr>m_shaderProgram := 0\<rparr>, gl (DeleteObject (m_shaderProgram s)) w2)
                            else (s, w2));
                s2 = s1\<lparr>m_currentTexture := -1, m_textures := [], m_params := []\<rparr>;
                (shaderProgram, w4) = glCreateObject d CreateProgramObject w3;
                (vertexOk, w5) = compileStage_opt d GL_VERTEX_SHADER (vertex_code h v g) shaderProgram w4
            in if \<not> vertexOk then (False, s2, w5)
               else
                 (let (geometryOk, w6) = compileStage_opt d GL_GEOMETRY_SHADER g shaderProgram w5
                  in if \<not> geometryOk then (False, s2, w6)
                     else
                       (let (fragmentOk, w7) = compileStage_opt d GL_FRAGMENT_SHADER f shaderProgram w6
                        in if \<not> fragmentOk then (False, s2, w7)
                           else linkProgram d (attached_stages (vertex_code h v g) g f)
                                  shaderProgram s2 w7))))"
  unfolding compile_def requested_stages_def vertex_code_def Let_def by (rule refl)

lemma compile_unavailable:
  assumes "\<not> fst (isAvailable h d (requested_stages h v g f) (gl EnsureGlContext w))"
  shows "compile h d v g f s w =
     (False, s, err unsupported_create_line
        (snd (isAvailable h d (requested_stages h v g f) (gl EnsureGlContext w))))"
  using assms by (simp add: compile_unfold Let_def case_prod_beta)

lemma compile_available_fst:
  assumes "fst (isAvailable h d (requested_stages h v g f) (gl EnsureGlContext w))"
  shows "fst (compile h d v g f s w) =
     (stages_compile d (attached_stages (vertex_code h v g) g f) \<and>
      link_status d (attached_stages (vertex_code h v g) g f))"
  using assms
  by (simp add: compile_unfold Let_def case_prod_beta compileStage_opt_fst linkProgram_fst
      stages_compile_attached)

lemma reset_shader:
  "s\<lparr>m_shaderProgram := 0, m_currentTexture := -1, m_textures := [], m_params := []\<rparr> = Shader_new"
  "s\<lparr>m_currentTexture := -1, m_textures := [], m_params := [], m_shaderProgram := p\<rparr> =
     Shader_new\<lparr>m_shaderProgram := p\<rparr>"
  "Shader_new\<lparr>m_shaderProgram := 0\<rparr> = Shader_new"
  by (simp_all add: Shader_new_def)

lemma compile_available_shader:
  assumes "fst (isAvailable h d (requested_stages h v g f) (gl EnsureGlContext w))"
  shows "fst (snd (compile h d v g f s w)) =
     Shader_new\<lparr>m_shaderProgram :=
       (if fst (compile h d v g f s w) then new_handle d (gl_created w) else 0)\<rparr>"
proof -
  let ?w2 = "snd (isAvailable h d (requested_stages h v g f) (gl EnsureGlContext w))"
  have created: "gl_created ?w2 = gl_created w" by (simp add: isAvailable_keeps gl_fields)
  show ?thesis
  proof (cases "m_shaderProgram s = 0")
    case True
    then have s0: "s\<lparr>m_currentTexture := -1, m_textures := [], m_params := []\<rparr> = Shader_new"
      by (simp add: Shader_new_def)
    show ?thesis using assms True
      by (simp add: compile_unfold Let_def case_prod_beta compileStage_opt_fst linkProgram_fst
          linkProgram_shader s0 glCreateObject_def created reset_shader(3))
  next
    case False
    have s0: "s\<lparr>m_shaderProgram := 0, m_currentTexture := -1, m_textures := [], m_params := []\<rparr> = Shader_new"
      by (simp add: Shader_new_def)
    show ?thesis using assms False
      by (simp add: compile_unfold Let_def case_prod_beta compileStage_opt_fst linkProgram_fst
          linkProgram_shader s0 glCreateObject_def created gl_fields reset_shader(3))
  qed
qed

text \<open>
  Claim C1. When the capability check of a \<open>compile\<close> call passes and a stage fails to
  compile or the program fails to link, the call returns failure and the instance is
  as a new one: handle 0 (\<open>getNativeHandle\<close> returns 0), empty uniform-location cache,
  empty texture table, current-texture location \<open>-1\<close>, whatever program the instance held
  before. (\<open>compile_available_shader\<close> adds that on success the only difference is the
  handle of the new program: no other state exists after a compile.)
\<close>
theorem compile_failure_leaves_no_program:
  assumes "fst (isAvailable h d (requested_stages h v g f) (gl EnsureGlContext w))"
    and "\<not> (stages_compile d (attached_stages (vertex_code h v g) g f) \<and>
            link_status d (attached_stages (vertex_code h v g) g f))"
  shows "\<not> fst (compile h d v g f s w) \<and>
    getNativeHandle (fst (snd (compile h d v g f s w))) = 0 \<and>
    m_params (fst (snd (compile h d v g f s w))) = [] \<and>
    m_textures (fst (snd (compile h d v g f s w))) = [] \<and>
    m_currentTexture (fst (snd (compile h d v g f s w))) = -1 \<and>
    fst (snd (compile h d v g f s w)) = Shader_new"
proof -
  have failed: "\<not> fst (compile h d v g f s w)"
    using assms(2) by (simp add: compile_available_fst [OF assms(1)])
  then have new: "fst (snd (compile h d v g f s w)) = Shader_new"
    by (simp add: compile_available_shader [OF assms(1)] reset_shader)
  show ?thesis using failed new by (simp add: getNativeHandle_def Shader_new_def)
qed

theorem compile_failure_leaves_no_program_witness:
  "fst (isAvailable some_decls some_driver
      (requested_stages some_decls (Some ''v'') None (Some ''nolink'')) (gl EnsureGlContext start_world)) \<and>
   \<not> (stages_compile some_driver (attached_stages (vertex_code some_decls (Some ''v'') None) None (Some ''nolink'')) \<and>
      link_status some_driver (attached_stages (vertex_code some_decls (Some ''v'') None) None (Some ''nolink''))) \<and>
   getNativeHandle textured_shader = 1 \<and>
   \<not> fst (compile some_decls some_driver (Some ''v'') None (Some ''nolink'') textured_shader start_world) \<and>
   fst (snd (compile some_decls some_driver (Some ''v'') None (Some ''nolink'') textured_shader start_world))
     = Shader_new"
proof -
  have a: "fst (isAvailable some_decls some_driver
      (requested_stages some_decls (Some ''v'') None (Some ''nolink'')) (gl EnsureGlContext start_world))"
    by (simp add: isAvailable_fst requested_stages_def some_decls_def vertex_flag_def fragment_flag_def
        geometry_flag_def gl_fields start_world_def basic_reported_def some_driver_def)
  have b: "\<not> (stages_compile some_driver (attached_stages (vertex_code some_decls (Some ''v'') None) None (Some ''nolink'')) \<and>
      link_status some_driver (attached_stages (vertex_code some_decls (Some ''v'') None) None (Some ''nolink'')))"
    by (simp add: attached_stages_def vertex_code_def some_driver_def)
  have c: "getNativeHandle textured_shader = 1" by (simp add: getNativeHandle_def textured_shader_def)
  from compile_failure_leaves_no_program [OF a b, of textured_shader] a b c show ?thesis by blast
qed

text \<open>
  Claim C2, as the code has it. When the requested stages are not supported, \<open>compile\<close>
  writes the capability error line and returns failure before anything is reset: the
  instance is returned as it was (program handle, uniform-location cache, texture table
  and current-texture location), and the backend sees only the context and availability
  calls: no object is created or deleted.
\<close>
theorem compile_unsupported_keeps_program:
  assumes "\<not> fst (isAvailable h d (requested_stages h v g f) (gl EnsureGlContext w))"
  shows "\<exists>w'. compile h d v g f s w = (False, s, w')
    \<and> err_lines w' = err_lines w @ [unsupported_create_line]
    \<and> gl_calls w' = gl_calls w @ [EnsureGlContext, Mutex_lock] @ probe_calls w @ [Mutex_unlock]
    \<and> gl_created w' = gl_created w"
  using compile_unavailable [OF assms, of s]
  by (simp add: err_fields isAvailable_keeps gl_fields probe_calls_def)

theorem compile_unsupported_keeps_program_witness:
  "\<not> fst (isAvailable some_decls no_geometry_driver
        (requested_stages some_decls (Some ''v'') (Some ''g'') (Some ''f'')) (gl EnsureGlContext start_world)) \<and>
   (\<exists>w'. compile some_decls no_geometry_driver (Some ''v'') (Some ''g'') (Some ''f'') textured_shader start_world
        = (False, textured_shader, w')
      \<and> err_lines w' = [unsupported_create_line]
      \<and> gl_calls w' = [EnsureGlContext, Mutex_lock, Context_create, EnsureExtensionsInit,
            Context_destroy, Mutex_unlock])"
proof -
  have a: "\<not> fst (isAvailable some_decls no_geometry_driver
        (requested_stages some_decls (Some ''v'') (Some ''g'') (Some ''f'')) (gl EnsureGlContext start_world))"
    by (simp add: isAvailable_fst requested_stages_def some_decls_def vertex_flag_def fragment_flag_def
        geometry_flag_def gl_fields start_world_def basic_reported_def some_driver_def
        no_geometry_driver_def)
  have fields: "err_lines start_world = []" "gl_calls start_world = []"
    "probe_calls start_world = [Context_create, EnsureExtensionsInit, Context_destroy]"
    by (simp_all add: start_world_def probe_calls_def)
  from compile_unsupported_keeps_program [OF a, of textured_shader] a show ?thesis
    by (auto simp: fields)
qed

text \<open>
  The claim as stated, that the previous program is destroyed and the instance left
  without a program, fails: an instance holding program 1 with two textures, recompiled
  with a geometry source on a backend without geometry stages, still holds program 1, its
  textures and its cache.
\<close>
theorem compile_unsupported_counterexample:
  "\<not> fst (isAvailable some_decls no_geometry_driver
        (requested_stages some_decls (Some ''v'') (Some ''g'') (Some ''f'')) (gl EnsureGlContext start_world)) \<and>
   getNativeHandle textured_shader = 1 \<and>
   getNativeHandle (fst (snd (compile some_decls no_geometry_driver (Some ''v'') (Some ''g'') (Some ''f'')
        textured_shader start_world))) \<noteq> 0 \<and>
   m_textures (fst (snd (compile some_decls no_geometry_driver (Some ''v'') (Some ''g'') (Some ''f'')
        textured_shader start_world))) \<noteq> [] \<and>
   m_params (fst (snd (compile some_decls no_geometry_driver (Some ''v'') (Some ''g'') (Some ''f'')
        textured_shader start_world))) \<noteq> []"
proof -
  have a: "\<not> fst (isAvailable some_decls no_geometry_driver
        (requested_stages some_decls (Some ''v'') (Some ''g'') (Some ''f'')) (gl EnsureGlContext start_world))"
    by (simp add: isAvailable_fst requested_stages_def some_decls_def vertex_flag_def fragment_flag_def
        geometry_flag_def gl_fields start_world_def basic_reported_def some_driver_def
        no_geometry_driver_def)
  show ?thesis
    using a by (simp add: compile_unavailable [OF a] getNativeHandle_def textured_shader_def)
qed

lemma requested_geometry_only: "requested_stages h None (Some gs) None = Geometry h"
  by (simp add: requested_stages_def)

lemma compileStage_ok_world:
  "compile_status d st code \<Longrightarrow>
   snd (compileStage d st code p w) =
     w\<lparr>gl_calls := gl_calls w @
          [CreateShaderObject st, ShaderSource (new_handle d (gl_created w)) code,
           CompileShader (new_handle d (gl_created w)),
           GetObjectParameteriv (new_handle d (gl_created w)) GL_OBJECT_COMPILE_STATUS,
           AttachObject p (new_handle d (gl_created w)), DeleteObject (new_handle d (gl_created w))],
       gl_created := Suc (gl_created w)\<rparr>"
  by (simp add: compileStage_def glCreateObject_def gl_def Let_def)

subsection \<open>Compiling a geometry stage alone\<close>

lemma flags_gl:
  "vertex_flag d (gl c w) = vertex_flag d w"
  "fragment_flag d (gl c w) = fragment_flag d w"
  "geometry_flag d (gl c w) = geometry_flag d w"
  "probe_calls (gl c w) = probe_calls w"
  by (simp_all add: vertex_flag_def fragment_flag_def geometry_flag_def probe_calls_def gl_fields
      split: option.splits)

lemma geometry_only_available:
  "fst (isAvailable h d (requested_stages h None (Some gs) None) (gl EnsureGlContext w)) =
     (\<not> (Geometry h AND Vertex h \<noteq> 0 \<and> \<not> vertex_flag d w) \<and>
      \<not> (Geometry h AND Fragment h \<noteq> 0 \<and> \<not> fragment_flag d w) \<and>
      \<not> (Geometry h \<noteq> 0 \<and> \<not> geometry_flag d w))"
  by (simp add: isAvailable_fst requested_geometry_only flags_gl)

lemma or_and_left: "((a::int) OR b) AND a = a"
  by (simp add: bit_eq_iff bit_simps) blast

lemma or_and_distrib: "((a::int) OR b) AND c = (a AND c) OR (b AND c)"
  by (simp add: bit_eq_iff bit_simps) blast

lemma requested_no_vertex:
  "requested_stages h None (Some gs) f = Geometry h OR (if f \<noteq> None then Fragment h else 0)"
  by (simp add: requested_stages_def)

lemma no_vertex_unavailable:
  assumes "Geometry h \<noteq> 0" and "\<not> geometry_flag d w"
  shows "\<not> fst (isAvailable h d (requested_stages h None (Some gs) f) (gl EnsureGlContext w))"
  using assms by (simp add: isAvailable_fst requested_no_vertex flags_gl or_and_left)

lemma no_vertex_available:
  assumes "geometry_flag d w" and "fragment_flag d w"
    and "Geometry h AND Vertex h = 0" and "Fragment h AND Vertex h = 0"
  shows "fst (isAvailable h d (requested_stages h None (Some gs) f) (gl EnsureGlContext w))"
  using assms by (simp add: isAvailable_fst requested_no_vertex flags_gl or_and_distrib)

lemma compileStage_calls:
  "gl_calls (snd (compileStage d st code p w)) =
     gl_calls w @ [CreateShaderObject st, ShaderSource (new_handle d (gl_created w)) code,
                   CompileShader (new_handle d (gl_created w)),
                   GetObjectParameteriv (new_handle d (gl_created w)) GL_OBJECT_COMPILE_STATUS] @
     (if compile_status d st code
      then [AttachObject p (new_handle d (gl_created w)), DeleteObject (new_handle d (gl_created w))]
      else [GetInfoLog (new_handle d (gl_created w)), DeleteObject (new_handle d (gl_created w)),
            DeleteObject p])"
  "gl_created (snd (compileStage d st code p w)) = Suc (gl_created w)"
  by (simp_all add: compileStage_def Let_def glCreateObject_def gl_fields err_fields)

lemma linkProgram_calls:
  "gl_calls (snd (snd (linkProgram d att p s w))) =
     gl_calls w @ [LinkProgram p, GetObjectParameteriv p GL_OBJECT_LINK_STATUS] @
     (if link_status d att then [Flush] else [GetInfoLog p, DeleteObject p])"
  by (simp add: linkProgram_def Let_def gl_fields err_fields)

lemma no_vertex_calls_begin:
  assumes "fst (isAvailable h d (requested_stages h None (Some gs) f) (gl EnsureGlContext w))"
  shows "\<exists>rest. gl_calls (snd (snd (compile h d None (Some gs) f s w))) =
         gl_calls w @ [EnsureGlContext, Mutex_lock] @ probe_calls w @ [Mutex_unlock] @
         (if m_shaderProgram s \<noteq> 0 then [DeleteObject (m_shaderProgram s)] else []) @
         [CreateProgramObject,
          CreateShaderObject GL_VERTEX_SHADER,
          ShaderSource (new_handle d (gl_created w + 1)) (getDefaultVertexShaderCode h),
          CompileShader (new_handle d (gl_created w + 1)),
          GetObjectParameteriv (new_handle d (gl_created w + 1)) GL_OBJECT_COMPILE_STATUS] @ rest"
proof -
  have c2: "\<And>f'. gl_calls (snd (isAvailable h d (requested_stages h None (Some gs) f') (gl EnsureGlContext w)))
      = gl_calls w @ [EnsureGlContext, Mutex_lock] @ probe_calls w @ [Mutex_unlock]"
    and n2: "\<And>f'. gl_created (snd (isAvailable h d (requested_stages h None (Some gs) f') (gl EnsureGlContext w)))
      = gl_created w"
    by (simp_all add: isAvailable_keeps gl_fields flags_gl)
  show ?thesis
  proof (cases f)
    case None
    then show ?thesis
      using assms
      by (simp add: compile_unfold Let_def case_prod_beta vertex_code_def
          compileStage_opt_def compileStage_fst compileStage_calls linkProgram_calls
          glCreateObject_def gl_fields c2 n2)
  next
    case (Some fs)
    then show ?thesis
      using assms
      by (simp add: compile_unfold Let_def case_prod_beta vertex_code_def
          compileStage_opt_def compileStage_fst compileStage_calls linkProgram_calls
          glCreateObject_def gl_fields c2 n2)
  qed
qed

lemma no_vertex_calls:
  assumes "fst (isAvailable h d (requested_stages h None (Some gs) f) (gl EnsureGlContext w))"
    and "compile_status d GL_VERTEX_SHADER (getDefaultVertexShaderCode h)"
    and "compile_status d GL_GEOMETRY_SHADER gs"
    and "case f of None \<Rightarrow> True | Some fs \<Rightarrow> compile_status d GL_FRAGMENT_SHADER fs"
    and "link_status d (attached_stages (Some (getDefaultVertexShaderCode h)) (Some gs) f)"
  shows "gl_calls (snd (snd (compile h d None (Some gs) f s w))) =
         gl_calls w @ [EnsureGlContext, Mutex_lock] @ probe_calls w @ [Mutex_unlock] @
         (if m_shaderProgram s \<noteq> 0 then [DeleteObject (m_shaderProgram s)] else []) @
         [CreateProgramObject,
          CreateShaderObject GL_VERTEX_SHADER,
          ShaderSource (new_handle d (gl_created w + 1)) (getDefaultVertexShaderCode h),
          CompileShader (new_handle d (gl_created w + 1)),
          GetObjectParameteriv (new_handle d (gl_created w + 1)) GL_OBJECT_COMPILE_STATUS,
          AttachObject (new_handle d (gl_created w)) (new_handle d (gl_created w + 1)),
          DeleteObject (new_handle d (gl_created w + 1)),
          CreateShaderObject GL_GEOMETRY_SHADER,
          ShaderSource (new_handle d (gl_created w + 2)) gs,
          CompileShader (new_handle d (gl_created w + 2)),
          GetObjectParameteriv (new_handle d (gl_created w + 2)) GL_OBJECT_COMPILE_STATUS,
          AttachObject (new_handle d (gl_created w)) (new_handle d (gl_created w + 2)),
          DeleteObject (new_handle d (gl_created w + 2))] @
         (case f of
            None \<Rightarrow> []
          | Some fs \<Rightarrow>
              [CreateShaderObject GL_FRAGMENT_SHADER,
               ShaderSource (new_handle d (gl_created w + 3)) fs,
               CompileShader (new_handle d (gl_created w + 3)),
               GetObjectParameteriv (new_handle d (gl_created w + 3)) GL_OBJECT_COMPILE_STATUS,
               AttachObject (new_handle d (gl_created w)) (new_handle d (gl_created w + 3)),
               DeleteObject (new_handle d (gl_created w + 3))]) @
         [LinkProgram (new_handle d (gl_created w)),
          GetObjectParameteriv (new_handle d (gl_created w)) GL_OBJECT_LINK_STATUS,
          Flush]"
proof -
  have c2: "\<And>f'. gl_calls (snd (isAvailable h d (requested_stages h None (Some gs) f') (gl EnsureGlContext w)))
      = gl_calls w @ [EnsureGlContext, Mutex_lock] @ probe_calls w @ [Mutex_unlock]"
    and n2: "\<And>f'. gl_created (snd (isAvailable h d (requested_stages h None (Some gs) f') (gl EnsureGlContext w)))
      = gl_created w"
    by (simp_all add: isAvailable_keeps gl_fields flags_gl)
  show ?thesis
  proof (cases f)
    case None
    then show ?thesis
      using assms
      by (simp add: compile_unfold Let_def case_prod_beta vertex_code_def
          compileStage_opt_def compileStage_fst compileStage_ok_world linkProgram_def
          glCreateObject_def gl_fields c2 n2)
  next
    case (Some fs)
    then show ?thesis
      using assms
      by (simp add: compile_unfold Let_def case_prod_beta vertex_code_def
          compileStage_opt_def compileStage_fst compileStage_ok_world linkProgram_def
          glCreateObject_def gl_fields c2 n2 numeral_3_eq_3)
  qed
qed

text \<open>
  Claim C6. A \<open>compile\<close> call with a geometry source and no vertex source, with or
  without a fragment source. Whenever the availability check passes, the first shader
  created after the program object is a vertex shader whose source is the default vertex
  source: it is compiled in place of the missing one. When the backend accepts the
  default vertex source, the geometry source, the fragment source if there is one, and
  the link, the call returns success, the instance holds the new program, and the stages
  were compiled in the order vertex (default), geometry, fragment. The check passes for
  a geometry source alone when the geometry flag is set, and with a fragment source when
  the geometry and fragment flags are set (the vertex mask of the header sharing no bit
  with the masks asked for). When the geometry flag is not set (the geometry mask being
  non-zero), the call writes the capability error line and returns failure with the
  instance unchanged, and no backend object is created, in particular no program object.
\<close>
theorem geometry_only_compile:
  "(fst (isAvailable h d (requested_stages h None (Some gs) f) (gl EnsureGlContext w)) \<longrightarrow>
      (\<exists>rest. gl_calls (snd (snd (compile h d None (Some gs) f s w))) =
         gl_calls w @ [EnsureGlContext, Mutex_lock] @ probe_calls w @ [Mutex_unlock] @
         (if m_shaderProgram s \<noteq> 0 then [DeleteObject (m_shaderProgram s)] else []) @
         [CreateProgramObject,
          CreateShaderObject GL_VERTEX_SHADER,
          ShaderSource (new_handle d (gl_created w + 1)) (getDefaultVertexShaderCode h),
          CompileShader (new_handle d (gl_created w + 1)),
          GetObjectParameteriv (new_handle d (gl_created w + 1)) GL_OBJECT_COMPILE_STATUS] @ rest))
   \<and>
   (fst (isAvailable h d (requested_stages h None (Some gs) f) (gl EnsureGlContext w)) \<and>
    compile_status d GL_VERTEX_SHADER (getDefaultVertexShaderCode h) \<and>
    compile_status d GL_GEOMETRY_SHADER gs \<and>
    (case f of None \<Rightarrow> True | Some fs \<Rightarrow> compile_status d GL_FRAGMENT_SHADER fs) \<and>
    link_status d (attached_stages (Some (getDefaultVertexShaderCode h)) (Some gs) f) \<longrightarrow>
    (\<exists>w'. compile h d None (Some gs) f s w =
            (True, Shader_new\<lparr>m_shaderProgram := new_handle d (gl_created w)\<rparr>, w') \<and>
       gl_calls w' =
         gl_calls w @ [EnsureGlContext, Mutex_lock] @ probe_calls w @ [Mutex_unlock] @
         (if m_shaderProgram s \<noteq> 0 then [DeleteObject (m_shaderProgram s)] else []) @
         [CreateProgramObject,
          CreateShaderObject GL_VERTEX_SHADER,
          ShaderSource (new_handle d (gl_created w + 1)) (getDefaultVertexShaderCode h),
          CompileShader (new_handle d (gl_created w + 1)),
          GetObjectParameteriv (new_handle d (gl_created w + 1)) GL_OBJECT_COMPILE_STATUS,
          AttachObject (new_handle d (gl_created w)) (new_handle d (gl_created w + 1)),
          DeleteObject (new_handle d (gl_created w + 1)),
          CreateShaderObject GL_GEOMETRY_SHADER,
          ShaderSource (new_handle d (gl_created w + 2)) gs,
          CompileShader (new_handle d (gl_created w + 2)),
          GetObjectParameteriv (new_handle d (gl_created w + 2)) GL_OBJECT_COMPILE_STATUS,
          AttachObject (new_handle d (gl_created w)) (new_handle d (gl_created w + 2)),
          DeleteObject (new_handle d (gl_created w + 2))] @
         (case f of
            None \<Rightarrow> []
          | Some fs \<Rightarrow>
              [CreateShaderObject GL_FRAGMENT_SHADER,
               ShaderSource (new_handle d (gl_created w + 3)) fs,
               CompileShader (new_handle d (gl_created w + 3)),
               GetObjectParameteriv (new_handle d (gl_created w + 3)) GL_OBJECT_COMPILE_STATUS,
               AttachObject (new_handle d (gl_created w)) (new_handle d (gl_created w + 3)),
               DeleteObject (new_handle d (gl_created w + 3))]) @
         [LinkProgram (new_handle d (gl_created w)),
          GetObjectParameteriv (new_handle d (gl_created w)) GL_OBJECT_LINK_STATUS,
          Flush]))
   \<and>
   (geometry_flag d w \<and> Geometry h AND Vertex h = 0 \<and> Geometry h AND Fragment h = 0 \<longrightarrow>
      fst (isAvailable h d (requested_stages h None (Some gs) None) (gl EnsureGlContext w)))
   \<and>
   (geometry_flag d w \<and> fragment_flag d w \<and>
    Geometry h AND Vertex h = 0 \<and> Fragment h AND Vertex h = 0 \<longrightarrow> fst (isAvailable h d (requested_stages h None (Some gs) f) (gl EnsureGlContext w)))
   \<and>
   (Geometry h \<noteq> 0 \<and> \<not> geometry_flag d w \<longrightarrow>
    (\<exists>w'. compile h d None (Some gs) f s w = (False, s, w') \<and>
       err_lines w' = err_lines w @ [unsupported_create_line] \<and>
       gl_calls w' = gl_calls w @ [EnsureGlContext, Mutex_lock] @ probe_calls w @ [Mutex_unlock] \<and>
       gl_created w' = gl_created w))"
proof (intro conjI impI)
  assume av: "fst (isAvailable h d (requested_stages h None (Some gs) f) (gl EnsureGlContext w))"
  then show "\<exists>rest. gl_calls (snd (snd (compile h d None (Some gs) f s w))) =
         gl_calls w @ [EnsureGlContext, Mutex_lock] @ probe_calls w @ [Mutex_unlock] @
         (if m_shaderProgram s \<noteq> 0 then [DeleteObject (m_shaderProgram s)] else []) @
         [CreateProgramObject,
          CreateShaderObject GL_VERTEX_SHADER,
          ShaderSource (new_handle d (gl_created w + 1)) (getDefaultVertexShaderCode h),
          CompileShader (new_handle d (gl_created w + 1)),
          GetObjectParameteriv (new_handle d (gl_created w + 1)) GL_OBJECT_COMPILE_STATUS] @ rest"
    by (rule no_vertex_calls_begin)
next
  assume a: "fst (isAvailable h d (requested_stages h None (Some gs) f) (gl EnsureGlContext w)) \<and>
    compile_status d GL_VERTEX_SHADER (getDefaultVertexShaderCode h) \<and>
    compile_status d GL_GEOMETRY_SHADER gs \<and>
    (case f of None \<Rightarrow> True | Some fs \<Rightarrow> compile_status d GL_FRAGMENT_SHADER fs) \<and>
    link_status d (attached_stages (Some (getDefaultVertexShaderCode h)) (Some gs) f)"
  let ?r = "compile h d None (Some gs) f s w"
  from a have av: "fst (isAvailable h d (requested_stages h None (Some gs) f) (gl EnsureGlContext w))" by blast
  have ok: "fst ?r"
    using a by (simp add: compile_available_fst [OF av] stages_compile_attached vertex_code_def)
  have sh: "fst (snd ?r) = Shader_new\<lparr>m_shaderProgram := new_handle d (gl_created w)\<rparr>"
    using ok by (simp add: compile_available_shader [OF av])
  have calls: "gl_calls (snd (snd ?r)) =
         gl_calls w @ [EnsureGlContext, Mutex_lock] @ probe_calls w @ [Mutex_unlock] @
         (if m_shaderProgram s \<noteq> 0 then [DeleteObject (m_shaderProgram s)] else []) @
         [CreateProgramObject,
          CreateShaderObject GL_VERTEX_SHADER,
          ShaderSource (new_handle d (gl_created w + 1)) (getDefaultVertexShaderCode h),
          CompileShader (new_handle d (gl_created w + 1)),
          GetObjectParameteriv (new_handle d (gl_created w + 1)) GL_OBJECT_COMPILE_STATUS,
          AttachObject (new_handle d (gl_created w)) (new_handle d (gl_created w + 1)),
          DeleteObject (new_handle d (gl_created w + 1)),
          CreateShaderObject GL_GEOMETRY_SHADER,
          ShaderSource (new_handle d (gl_created w + 2)) gs,
          CompileShader (new_handle d (gl_created w + 2)),
          GetObjectParameteriv (new_handle d (gl_created w + 2)) GL_OBJECT_COMPILE_STATUS,
          AttachObject (new_handle d (gl_created w)) (new_handle d (gl_created w + 2)),
          DeleteObject (new_handle d (gl_created w + 2))] @
         (case f of
            None \<Rightarrow> []
          | Some fs \<Rightarrow>
              [CreateShaderObject GL_FRAGMENT_SHADER,
               ShaderSource (new_handle d (gl_created w + 3)) fs,
               CompileShader (new_handle d (gl_created w + 3)),
               GetObjectParameteriv (new_handle d (gl_created w + 3)) GL_OBJECT_COMPILE_STATUS,
               AttachObject (new_handle d (gl_created w)) (new_handle d (gl_created w + 3)),
               DeleteObject (new_handle d (gl_created w + 3))]) @
         [LinkProgram (new_handle d (gl_created w)),
          GetObjectParameteriv (new_handle d (gl_created w)) GL_OBJECT_LINK_STATUS,
          Flush]"
    using a by (intro no_vertex_calls) simp_all
  have "?r = (True, Shader_new\<lparr>m_shaderProgram := new_handle d (gl_created w)\<rparr>, snd (snd ?r))"
    using ok sh by (simp add: prod_eq_iff)
  with calls show "\<exists>w'. ?r = (True, Shader_new\<lparr>m_shaderProgram := new_handle d (gl_created w)\<rparr>, w') \<and>
       gl_calls w' =
         gl_calls w @ [EnsureGlContext, Mutex_lock] @ probe_calls w @ [Mutex_unlock] @
         (if m_shaderProgram s \<noteq> 0 then [DeleteObject (m_shaderProgram s)] else []) @
         [CreateProgramObject,
          CreateShaderObject GL_VERTEX_SHADER,
          ShaderSource (new_handle d (gl_created w + 1)) (getDefaultVertexShaderCode h),
          CompileShader (new_handle d (gl_created w + 1)),
          GetObjectParameteriv (new_handle d (gl_created w + 1)) GL_OBJECT_COMPILE_STATUS,
          AttachObject (new_handle d (gl_created w)) (new_handle d (gl_created w + 1)),
          DeleteObject (new_handle d (gl_created w + 1)),
          CreateShaderObject GL_GEOMETRY_SHADER,
          ShaderSource (new_handle d (gl_created w + 2)) gs,
          CompileShader (new_handle d (gl_created w + 2)),
          GetObjectParameteriv (new_handle d (gl_created w + 2)) GL_OBJECT_COMPILE_STATUS,
          AttachObject (new_handle d (gl_created w)) (new_handle d (gl_created w + 2)),
          DeleteObject (new_handle d (gl_created w + 2))] @
         (case f of
            None \<Rightarrow> []
          | Some fs \<Rightarrow>
              [CreateShaderObject GL_FRAGMENT_SHADER,
               ShaderSource (new_handle d (gl_created w + 3)) fs,
               CompileShader (new_handle d (gl_created w + 3)),
               GetObjectParameteriv (new_handle d (gl_created w + 3)) GL_OBJECT_COMPILE_STATUS,
               AttachObject (new_handle d (gl_created w)) (new_handle d (gl_created w + 3)),
               DeleteObject (new_handle d (gl_created w + 3))]) @
         [LinkProgram (new_handle d (gl_created w)),
          GetObjectParameteriv (new_handle d (gl_created w)) GL_OBJECT_LINK_STATUS,
          Flush]"
    by blast
next
  assume "geometry_flag d w \<and> Geometry h AND Vertex h = 0 \<and> Geometry h AND Fragment h = 0"
  then show "fst (isAvailable h d (requested_stages h None (Some gs) None) (gl EnsureGlContext w))"
    by (simp add: geometry_only_available)
next
  assume "geometry_flag d w \<and> fragment_flag d w \<and>
    Geometry h AND Vertex h = 0 \<and> Fragment h AND Vertex h = 0"
  then show "fst (isAvailable h d (requested_stages h None (Some gs) f) (gl EnsureGlContext w))"
    by (intro no_vertex_available) simp_all
next
  assume b: "Geometry h \<noteq> 0 \<and> \<not> geometry_flag d w"
  have nav: "\<not> fst (isAvailable h d (requested_stages h None (Some gs) f) (gl EnsureGlContext w))"
    using b by (intro no_vertex_unavailable) simp_all
  show "\<exists>w'. compile h d None (Some gs) f s w = (False, s, w') \<and>
       err_lines w' = err_lines w @ [unsupported_create_line] \<and>
       gl_calls w' = gl_calls w @ [EnsureGlContext, Mutex_lock] @ probe_calls w @ [Mutex_unlock] \<and>
       gl_created w' = gl_created w"
    using compile_unavailable [OF nav, of s]
    by (simp add: err_fields isAvailable_keeps gl_fields probe_calls_def)
qed

theorem geometry_only_compile_witness:
  "fst (isAvailable some_decls some_driver
      (requested_stages some_decls None (Some ''g'') (Some ''f'')) (gl EnsureGlContext start_world)) \<and>
   compile_status some_driver GL_VERTEX_SHADER (getDefaultVertexShaderCode some_decls) \<and>
   compile_status some_driver GL_GEOMETRY_SHADER ''g'' \<and>
   compile_status some_driver GL_FRAGMENT_SHADER ''f'' \<and>
   link_status some_driver
     (attached_stages (Some (getDefaultVertexShaderCode some_decls)) (Some ''g'') (Some ''f'')) \<and>
   fst (compile some_decls some_driver None (Some ''g'') (Some ''f'') Shader_new start_world) \<and>
   getNativeHandle (fst (snd (compile some_decls some_driver None (Some ''g'') (Some ''f'') Shader_new start_world))) = 1 \<and>
   gl_calls (snd (snd (compile some_decls some_driver None (Some ''g'') (Some ''f'') Shader_new start_world))) =
     [EnsureGlContext, Mutex_lock, Context_create, EnsureExtensionsInit, Context_destroy, Mutex_unlock,
      CreateProgramObject,
      CreateShaderObject GL_VERTEX_SHADER, ShaderSource 2 ''void main() {}'', CompileShader 2,
      GetObjectParameteriv 2 GL_OBJECT_COMPILE_STATUS, AttachObject 1 2, DeleteObject 2,
      CreateShaderObject GL_GEOMETRY_SHADER, ShaderSource 3 ''g'', CompileShader 3,
      GetObjectParameteriv 3 GL_OBJECT_COMPILE_STATUS, AttachObject 1 3, DeleteObject 3,
      CreateShaderObject GL_FRAGMENT_SHADER, ShaderSource 4 ''f'', CompileShader 4,
      GetObjectParameteriv 4 GL_OBJECT_COMPILE_STATUS, AttachObject 1 4, DeleteObject 4,
      LinkProgram 1, GetObjectParameteriv 1 GL_OBJECT_LINK_STATUS, Flush] \<and>
   Geometry some_decls \<noteq> 0 \<and> \<not> geometry_flag no_geometry_driver start_world \<and>
   \<not> fst (compile some_decls no_geometry_driver None (Some ''g'') (Some ''f'') Shader_new start_world) \<and>
   gl_calls (snd (snd (compile some_decls no_geometry_driver None (Some ''g'') (Some ''f'') Shader_new start_world)))
     = [EnsureGlContext, Mutex_lock, Context_create, EnsureExtensionsInit, Context_destroy, Mutex_unlock] \<and>
   geometry_flag some_driver start_world \<and> Geometry some_decls AND Vertex some_decls = 0 \<and>
   Geometry some_decls AND Fragment some_decls = 0 \<and>
   fst (isAvailable some_decls some_driver
      (requested_stages some_decls None (Some ''g'') None) (gl EnsureGlContext start_world))"
proof -
  have av: "fst (isAvailable some_decls some_driver
      (requested_stages some_decls None (Some ''g'') (Some ''f'')) (gl EnsureGlContext start_world))"
    by (simp add: isAvailable_fst requested_stages_def some_decls_def vertex_flag_def fragment_flag_def
        geometry_flag_def gl_fields start_world_def basic_reported_def some_driver_def)
  have st: "compile_status some_driver GL_VERTEX_SHADER (getDefaultVertexShaderCode some_decls)"
    "compile_status some_driver GL_GEOMETRY_SHADER ''g''"
    "compile_status some_driver GL_FRAGMENT_SHADER ''f''"
    "link_status some_driver
      (attached_stages (Some (getDefaultVertexShaderCode some_decls)) (Some ''g'') (Some ''f''))"
    by (simp_all add: some_driver_def some_decls_def attached_stages_def)
  have b: "Geometry some_decls \<noteq> 0" "\<not> geometry_flag no_geometry_driver start_world"
    by (simp_all add: geometry_flag_def start_world_def some_driver_def some_decls_def no_geometry_driver_def)
  have g: "geometry_flag some_driver start_world" "Geometry some_decls AND Vertex some_decls = 0"
    "Geometry some_decls AND Fragment some_decls = 0"
    by (simp_all add: geometry_flag_def start_world_def some_driver_def some_decls_def)
  have fields: "gl_calls start_world = []" "gl_created start_world = 0"
    "probe_calls start_world = [Context_create, EnsureExtensionsInit, Context_destroy]"
    "m_shaderProgram Shader_new = 0"
    by (simp_all add: start_world_def probe_calls_def Shader_new_def)
  have hs: "new_handle some_driver 0 = 1" "new_handle some_driver (Suc 0) = 2"
    "new_handle some_driver (Suc (Suc 0)) = 3" "new_handle some_driver 3 = 4"
    "new_handle some_driver (Suc (Suc (Suc 0))) = 4"
    "getDefaultVertexShaderCode some_decls = ''void main() {}''"
    by (simp_all add: some_driver_def some_decls_def)
  note success = geometry_only_compile [of some_decls some_driver "''g''" "Some ''f''" start_world Shader_new]
  note failure = geometry_only_compile [of some_decls no_geometry_driver "''g''" "Some ''f''" start_world Shader_new]
  note alone = geometry_only_compile [of some_decls some_driver "''g''" None start_world Shader_new]
  from success av st
  have "\<exists>w'. compile some_decls some_driver None (Some ''g'') (Some ''f'') Shader_new start_world =
            (True, Shader_new\<lparr>m_shaderProgram := 1\<rparr>, w') \<and>
       gl_calls w' =
     [EnsureGlContext, Mutex_lock, Context_create, EnsureExtensionsInit, Context_destroy, Mutex_unlock,
      CreateProgramObject,
      CreateShaderObject GL_VERTEX_SHADER, ShaderSource 2 ''void main() {}'', CompileShader 2,
      GetObjectParameteriv 2 GL_OBJECT_COMPILE_STATUS, AttachObject 1 2, DeleteObject 2,
      CreateShaderObject GL_GEOMETRY_SHADER, ShaderSource 3 ''g'', CompileShader 3,
      GetObjectParameteriv 3 GL_OBJECT_COMPILE_STATUS, AttachObject 1 3, DeleteObject 3,
      CreateShaderObject GL_FRAGMENT_SHADER, ShaderSource 4 ''f'', CompileShader 4,
      GetObjectParameteriv 4 GL_OBJECT_COMPILE_STATUS, AttachObject 1 4, DeleteObject 4,
      LinkProgram 1, GetObjectParameteriv 1 GL_OBJECT_LINK_STATUS, Flush]"
    by (simp add: fields hs)
  then have one: "fst (compile some_decls some_driver None (Some ''g'') (Some ''f'') Shader_new start_world) \<and>
   getNativeHandle (fst (snd (compile some_decls some_driver None (Some ''g'') (Some ''f'') Shader_new start_world))) = 1 \<and>
   gl_calls (snd (snd (compile some_decls some_driver None (Some ''g'') (Some ''f'') Shader_new start_world))) =
     [EnsureGlContext, Mutex_lock, Context_create, EnsureExtensionsInit, Context_destroy, Mutex_unlock,
      CreateProgramObject,
      CreateShaderObject GL_VERTEX_SHADER, ShaderSource 2 ''void main() {}'', CompileShader 2,
      GetObjectParameteriv 2 GL_OBJECT_COMPILE_STATUS, AttachObject 1 2, DeleteObject 2,
      CreateShaderObject GL_GEOMETRY_SHADER, ShaderSource 3 ''g'', CompileShader 3,
      GetObjectParameteriv 3 GL_OBJECT_COMPILE_STATUS, AttachObject 1 3, DeleteObject 3,
      CreateShaderObject GL_FRAGMENT_SHADER, ShaderSource 4 ''f'', CompileShader 4,
      GetObjectParameteriv 4 GL_OBJECT_COMPILE_STATUS, AttachObject 1 4, DeleteObject 4,
      LinkProgram 1, GetObjectParameteriv 1 GL_OBJECT_LINK_STATUS, Flush]"
    by (auto simp: getNativeHandle_def)
  from failure b
  have two: "\<not> fst (compile some_decls no_geometry_driver None (Some ''g'') (Some ''f'') Shader_new start_world) \<and>
   gl_calls (snd (snd (compile some_decls no_geometry_driver None (Some ''g'') (Some ''f'') Shader_new start_world)))
     = [EnsureGlContext, Mutex_lock, Context_create, EnsureExtensionsInit, Context_destroy, Mutex_unlock]"
    by (auto simp: fields)
  from alone g
  have three: "fst (isAvailable some_decls some_driver
      (requested_stages some_decls None (Some ''g'') None) (gl EnsureGlContext start_world))"
    by blast
  from av st b g one two three show ?thesis by blast
qed

subsection \<open>Setting a texture again\<close>

lemma table_ok_distinct: "table_ok t \<Longrightarrow> distinct (map fst t)"
  by (simp add: table_ok_def strict_sorted_iff)

lemma getParamLocation_textures:
  "m_textures (fst (snd (getParamLocation d name s w))) = m_textures s"
  by (simp add: getParamLocation_shader)

lemma setParameter_write_textures:
  "m_textures (fst (setParameter_write d name wr s w)) = m_textures s"
  by (simp add: setParameter_write_def Let_def case_prod_beta getParamLocation_textures)

lemma setParameter_CurrentTexture_textures:
  "m_textures (fst (setParameter_CurrentTexture d name s w)) = m_textures s"
  by (simp add: setParameter_CurrentTexture_def Let_def case_prod_beta getParamLocation_textures)

lemma setParameter_Texture_textures:
  "m_textures (fst (setParameter_Texture d name tex s w)) = m_textures s \<or>
   m_textures (fst (setParameter_Texture d name tex s w)) =
     table_assign (resolve d s name) tex (m_textures s)"
  by (simp add: setParameter_Texture_def Let_def case_prod_beta getParamLocation_textures
      getParamLocation_fst split: option.splits)

lemma setParameter_table_ok:
  assumes "table_ok (m_textures s)"
  shows "table_ok (m_textures (fst (setParameter d name p s w)))"
proof (cases p)
  case (P_Vector2f v)
  then show ?thesis using assms
    by (cases v) (simp add: setParameter_2f_def setParameter_write_textures)
next
  case (P_Vector3f v)
  then show ?thesis using assms
    by (cases v) (simp add: setParameter_3f_def setParameter_write_textures)
next
  case (P_Color c)
  then show ?thesis using assms
    by (cases c) (simp add: setParameter_4f_def setParameter_write_textures)
next
  case (P_Texture t)
  then show ?thesis
    using assms setParameter_Texture_textures [of d name t s w] table_assign_ok [OF assms]
    by auto
qed (simp_all add: assms setParameter_1f_def setParameter_2f_def setParameter_3f_def
      setParameter_4f_def setParameter_Transform_def setParameter_write_textures
      setParameter_CurrentTexture_textures)

lemma compile_textures:
  "m_textures (fst (snd (compile h d v g f s w))) =
     (if fst (isAvailable h d (requested_stages h v g f) (gl EnsureGlContext w))
      then [] else m_textures s)"
proof (cases "fst (isAvailable h d (requested_stages h v g f) (gl EnsureGlContext w))")
  case True
  then show ?thesis by (simp add: compile_available_shader Shader_new_def)
next
  case False
  then show ?thesis by (simp add: compile_unavailable)
qed

text \<open>
  Claim C8. On an instance with a program, setting a texture for a name whose location
  (not \<open>-1\<close>) is already a key of the texture table replaces the texture stored at that
  key: the table maps the location to the new texture and every other key as before, its
  keys, their order and its size are unchanged, and no error line is written. Each key
  occurs once in the table at all times: the table of a new instance has strictly
  increasing keys, and every \<open>setParameter\<close> overload and \<open>compile\<close> keep that.
\<close>
theorem texture_rebinding:
  assumes "table_ok (m_textures s)"
  shows "(m_shaderProgram s \<noteq> 0 \<and> resolve d s name \<noteq> -1 \<and>
          map_of (m_textures s) (resolve d s name) = Some old \<longrightarrow>
            map_of (m_textures (fst (setParameter_Texture d name tex s w))) =
              (map_of (m_textures s))(resolve d s name \<mapsto> tex)
          \<and> map fst (m_textures (fst (setParameter_Texture d name tex s w))) = map fst (m_textures s)
          \<and> length (m_textures (fst (setParameter_Texture d name tex s w))) = length (m_textures s)
          \<and> err_lines (snd (setParameter_Texture d name tex s w)) = err_lines w)
    \<and> table_ok (m_textures (fst (setParameter d name p s w)))
    \<and> distinct (map fst (m_textures (fst (setParameter d name p s w))))
    \<and> table_ok (m_textures (fst (snd (compile h d v g f s w))))
    \<and> table_ok (m_textures Shader_new)"
proof (intro conjI impI)
  assume a: "m_shaderProgram s \<noteq> 0 \<and> resolve d s name \<noteq> -1 \<and>
          map_of (m_textures s) (resolve d s name) = Some old"
  then have eq: "setParameter_Texture d name tex s w =
    ((cache_after d name s)\<lparr>m_textures := table_assign (resolve d s name) tex (m_textures s)\<rparr>,
     snd (snd (getParamLocation d name s (gl EnsureGlContext w))))"
    by (intro setParameter_Texture_replaces_eq) simp_all
  show "map_of (m_textures (fst (setParameter_Texture d name tex s w))) =
              (map_of (m_textures s))(resolve d s name \<mapsto> tex)"
    by (simp add: eq map_of_table_assign [OF assms])
  show "map fst (m_textures (fst (setParameter_Texture d name tex s w))) = map fst (m_textures s)"
    using a by (simp add: eq table_assign_same_keys [OF assms])
  show "length (m_textures (fst (setParameter_Texture d name tex s w))) = length (m_textures s)"
    using a by (simp add: eq length_table_assign [OF assms])
  show "err_lines (snd (setParameter_Texture d name tex s w)) = err_lines w"
    using a by (simp add: eq getParamLocation_world gl_fields)
next
  show "table_ok (m_textures (fst (setParameter d name p s w)))"
    by (rule setParameter_table_ok [OF assms])
  then show "distinct (map fst (m_textures (fst (setParameter d name p s w))))"
    by (rule table_ok_distinct)
  show "table_ok (m_textures (fst (snd (compile h d v g f s w))))"
    using assms by (simp add: compile_textures table_ok_def)
  show "table_ok (m_textures Shader_new)"
    by (simp add: Shader_new_def table_ok_def)
qed

theorem texture_rebinding_witness:
  "table_ok (m_textures textured_shader) \<and>
   m_shaderProgram textured_shader \<noteq> 0 \<and> resolve some_driver textured_shader ''a'' = 7 \<and>
   map_of (m_textures textured_shader) 7 = Some 10 \<and>
   map_of (m_textures (fst (setParameter_Texture some_driver ''a'' 99 textured_shader start_world))) 7 = Some 99 \<and>
   map fst (m_textures (fst (setParameter_Texture some_driver ''a'' 99 textured_shader start_world))) = [3, 7] \<and>
   length (m_textures (fst (setParameter_Texture some_driver ''a'' 99 textured_shader start_world))) = 2"
proof -
  have ok: "table_ok (m_textures textured_shader)"
    by (simp add: table_ok_def textured_shader_def)
  have r: "resolve some_driver textured_shader ''a'' = 7"
    by (simp add: resolve_def textured_shader_def)
  have a: "m_shaderProgram textured_shader \<noteq> 0 \<and> resolve some_driver textured_shader ''a'' \<noteq> -1 \<and>
          map_of (m_textures textured_shader) (resolve some_driver textured_shader ''a'') = Some 10"
    by (simp add: r) (simp add: textured_shader_def)
  have t: "m_textures textured_shader = [(3, 20), (7, 10)]" by (simp add: textured_shader_def)
  from texture_rebinding [OF ok, of some_driver "''a''" 10 99 start_world] a ok r
  show ?thesis by (simp add: t)
qed

subsection \<open>The availability probe\<close>

lemma isAvailable_each_flags:
  "vertex_flag d (snd (isAvailable_each h d ms w)) = vertex_flag d w \<and>
   fragment_flag d (snd (isAvailable_each h d ms w)) = fragment_flag d w \<and>
   geometry_flag d (snd (isAvailable_each h d ms w)) = geometry_flag d w"
  by (induction ms arbitrary: w) (simp_all add: case_prod_beta Let_def isAvailable_flags)

lemma isAvailable_each_later:
  "isAvailable_available w \<noteq> None \<Longrightarrow>
   snd (isAvailable_each h d ms w) =
     w\<lparr>gl_calls := gl_calls w @ concat (map (\<lambda>m. [Mutex_lock, Mutex_unlock]) ms)\<rparr>"
proof (induction ms arbitrary: w)
  case Nil
  then show ?case by simp
next
  case (Cons m ms)
  from Cons.prems obtain a where a: "isAvailable_available w = Some a" by auto
  have step: "snd (isAvailable h d m w) = w\<lparr>gl_calls := gl_calls w @ [Mutex_lock, Mutex_unlock]\<rparr>"
    by (simp add: isAvailable_world a)
  have "isAvailable_available (snd (isAvailable h d m w)) \<noteq> None"
    by (simp add: step a)
  from Cons.IH [OF this] show ?case
    by (simp add: case_prod_beta Let_def step)
qed

text \<open>
  Claim C9. The first \<open>isAvailable\<close> of a process (its static is not initialised) takes
  the mutex, runs the probe, releases the mutex; the probe sets the vertex and the
  fragment flag to one and the same value, the conjunction of the five basic extension
  flags, and the geometry flag to the geometry extension flag. Every call leaves the
  static initialised, and a call that finds it initialised only takes and releases the
  mutex: it changes no flag and issues no probe call, so the probe runs once however
  many calls follow. The value returned for a stage mask is the same at any point of
  any sequence of calls with any masks, also when the call is the first one.
  (The model is sequential: the mutex is recorded as calls around the probe, threads
  are not modelled.)
\<close>
theorem isAvailable_deterministic:
  "(isAvailable_available w = None \<longrightarrow>
      gl_calls (snd (isAvailable h d m w)) =
        gl_calls w @ [Mutex_lock, Context_create, EnsureExtensionsInit, Context_destroy, Mutex_unlock]
    \<and> vertexShaderAvailable (snd (isAvailable h d m w)) = basic_reported d
    \<and> fragmentShaderAvailable (snd (isAvailable h d m w)) = basic_reported d
    \<and> geometryShaderAvailable (snd (isAvailable h d m w)) = GLEXT_geometry_shader4 d)
   \<and> (isAvailable_available w \<noteq> None \<longrightarrow>
        snd (isAvailable h d m w) = w\<lparr>gl_calls := gl_calls w @ [Mutex_lock, Mutex_unlock]\<rparr>)
   \<and> isAvailable_available (snd (isAvailable h d m w)) \<noteq> None
   \<and> (\<forall>ms. snd (isAvailable_each h d ms (snd (isAvailable h d m w))) =
        (snd (isAvailable h d m w))\<lparr>gl_calls := gl_calls (snd (isAvailable h d m w)) @
            concat (map (\<lambda>m. [Mutex_lock, Mutex_unlock]) ms)\<rparr>)
   \<and> (\<forall>ms. fst (isAvailable h d m (snd (isAvailable_each h d ms w))) = fst (isAvailable h d m w))"
proof (intro conjI impI allI)
  assume n: "isAvailable_available w = None"
  show "gl_calls (snd (isAvailable h d m w)) =
        gl_calls w @ [Mutex_lock, Context_create, EnsureExtensionsInit, Context_destroy, Mutex_unlock]"
    by (simp add: isAvailable_world n)
  show "vertexShaderAvailable (snd (isAvailable h d m w)) = basic_reported d"
    by (simp add: isAvailable_world n)
  show "fragmentShaderAvailable (snd (isAvailable h d m w)) = basic_reported d"
    by (simp add: isAvailable_world n)
  show "geometryShaderAvailable (snd (isAvailable h d m w)) = GLEXT_geometry_shader4 d"
    by (simp add: isAvailable_world n)
next
  assume "isAvailable_available w \<noteq> None"
  then show "snd (isAvailable h d m w) = w\<lparr>gl_calls := gl_calls w @ [Mutex_lock, Mutex_unlock]\<rparr>"
    by (auto simp: isAvailable_world)
next
  show init: "isAvailable_available (snd (isAvailable h d m w)) \<noteq> None"
    by (rule isAvailable_flags)
  fix ms
  show "snd (isAvailable_each h d ms (snd (isAvailable h d m w))) =
        (snd (isAvailable h d m w))\<lparr>gl_calls := gl_calls (snd (isAvailable h d m w)) @
            concat (map (\<lambda>m. [Mutex_lock, Mutex_unlock]) ms)\<rparr>"
    by (rule isAvailable_each_later [OF init])
next
  fix ms
  show "fst (isAvailable h d m (snd (isAvailable_each h d ms w))) = fst (isAvailable h d m w)"
    by (simp add: isAvailable_fst isAvailable_each_flags)
qed

theorem isAvailable_deterministic_witness:
  "isAvailable_available start_world = None \<and>
   isAvailable some_decls some_driver 2 start_world =
     (True, start_world\<lparr>gl_calls := [Mutex_lock, Context_create, EnsureExtensionsInit, Context_destroy, Mutex_unlock],
        vertexShaderAvailable := True, fragmentShaderAvailable := True, geometryShaderAvailable := True,
        isAvailable_available := Some True\<rparr>) \<and>
   isAvailable_available (snd (isAvailable some_decls some_driver 2 start_world)) \<noteq> None \<and>
   gl_calls (snd (isAvailable some_decls some_driver 5 (snd (isAvailable some_decls some_driver 2 start_world))))
     = [Mutex_lock, Context_create, EnsureExtensionsInit, Context_destroy, Mutex_unlock, Mutex_lock, Mutex_unlock] \<and>
   fst (isAvailable some_decls some_driver 2 (snd (isAvailable_each some_decls some_driver [5, 1] start_world)))
     = fst (isAvailable some_decls some_driver 2 start_world)"
proof -
  have n: "isAvailable_available start_world = None" by (simp add: start_world_def)
  have b: "basic_reported some_driver" "GLEXT_geometry_shader4 some_driver"
    by (simp_all add: basic_reported_def some_driver_def)
  have e: "isAvailable some_decls some_driver 2 start_world =
     (True, start_world\<lparr>gl_calls := [Mutex_lock, Context_create, EnsureExtensionsInit, Context_destroy, Mutex_unlock],
        vertexShaderAvailable := True, fragmentShaderAvailable := True, geometryShaderAvailable := True,
        isAvailable_available := Some True\<rparr>)"
    by (simp add: prod_eq_iff isAvailable_fst isAvailable_world n b vertex_flag_def fragment_flag_def
        geometry_flag_def) (simp add: start_world_def)
  note first = isAvailable_deterministic [of start_world some_decls some_driver 2]
  note later = isAvailable_deterministic [of "snd (isAvailable some_decls some_driver 2 start_world)"
      some_decls some_driver 5]
  from first have i: "isAvailable_available (snd (isAvailable some_decls some_driver 2 start_world)) \<noteq> None"
    by blast
  from first have o: "fst (isAvailable some_decls some_driver 2 (snd (isAvailable_each some_decls some_driver [5, 1] start_world)))
     = fst (isAvailable some_decls some_driver 2 start_world)"
    by blast
  from later i have "snd (isAvailable some_decls some_driver 5 (snd (isAvailable some_decls some_driver 2 start_world)))
     = (snd (isAvailable some_decls some_driver 2 start_world))\<lparr>gl_calls :=
          gl_calls (snd (isAvailable some_decls some_driver 2 start_world)) @ [Mutex_lock, Mutex_unlock]\<rparr>"
    by blast
  then have l: "gl_calls (snd (isAvailable some_decls some_driver 5 (snd (isAvailable some_decls some_driver 2 start_world))))
     = [Mutex_lock, Context_create, EnsureExtensionsInit, Context_destroy, Mutex_unlock, Mutex_lock, Mutex_unlock]"
    by (simp add: e)
  from n e i l o show ?thesis by blast
qed

subsection \<open>Binding\<close>

lemma GLsizei_cast_small: "n < 2 ^ 31 \<Longrightarrow> GLsizei_cast n = int n"
proof -
  assume n: "n < 2 ^ 31"
  have "signed_take_bit 31 (int n) = int n"
    by (rule signed_take_bit_int_eq_self) (use n in simp_all)
  then show ?thesis by (simp add: GLsizei_cast_def signed_of_nat)
qed

lemma bindTextures_loop_fields:
  "gl_program (bindTextures_loop i t w) = gl_program w \<and>
   gl_created (bindTextures_loop i t w) = gl_created w \<and>
   err_lines (bindTextures_loop i t w) = err_lines w"
  by (induction i t w rule: bindTextures_loop.induct)
     (simp_all add: Let_def glActiveTexture_def gl_fields)

lemma bindTextures_loop_calls:
  "gl_calls (bindTextures_loop i t w) =
     gl_calls w @ concat (map (\<lambda>j. [Uniform1i (fst (t ! j)) (GLsizei_cast (i + j + 1)),
                                     ActiveTexture (GLsizei_cast (i + j + 1)),
                                     Texture_bind (snd (t ! j))]) [0..<length t])"
proof (induction i t w rule: bindTextures_loop.induct)
  case (1 i w)
  then show ?case by simp
next
  case (2 i location texture rest w)
  have shift: "[0..<length ((location, texture) # rest)] = 0 # map Suc [0..<length rest]"
    by (simp add: upt_conv_Cons map_Suc_upt del: upt_Suc)
  show ?case
    unfolding shift
    using "2.IH" [OF refl refl refl refl]
    by (simp add: Let_def glActiveTexture_def gl_fields comp_def)
qed

lemma bindTextures_calls:
  assumes "length (m_textures s) < 2 ^ 31"
  shows "gl_calls (bindTextures s w) =
     gl_calls w @
     concat (map (\<lambda>i. [Uniform1i (fst (m_textures s ! i)) (int i + 1),
                        ActiveTexture (int i + 1),
                        Texture_bind (snd (m_textures s ! i))]) [0..<length (m_textures s)]) @
     [ActiveTexture 0]"
proof -
  have eq: "map (\<lambda>j. [Uniform1i (fst (m_textures s ! j)) (GLsizei_cast (Suc j)),
                  ActiveTexture (GLsizei_cast (Suc j)),
                  Texture_bind (snd (m_textures s ! j))]) [0..<length (m_textures s)] =
        map (\<lambda>i. [Uniform1i (fst (m_textures s ! i)) (int i + 1),
                        ActiveTexture (int i + 1),
                        Texture_bind (snd (m_textures s ! i))]) [0..<length (m_textures s)]"
  proof (rule map_cong [OF refl])
    fix j assume "j \<in> set [0..<length (m_textures s)]"
    then have "Suc j < 2 ^ 31" using assms by simp
    then have "GLsizei_cast (Suc j) = int j + 1"
      by (simp add: GLsizei_cast_small)
    then show "[Uniform1i (fst (m_textures s ! j)) (GLsizei_cast (Suc j)),
                  ActiveTexture (GLsizei_cast (Suc j)),
                  Texture_bind (snd (m_textures s ! j))] =
               [Uniform1i (fst (m_textures s ! j)) (int j + 1),
                        ActiveTexture (int j + 1),
                        Texture_bind (snd (m_textures s ! j))]"
      by simp
  qed
  have c0: "gl_calls (bindTextures s w) =
     gl_calls w @
     concat (map (\<lambda>j. [Uniform1i (fst (m_textures s ! j)) (GLsizei_cast (Suc j)),
                  ActiveTexture (GLsizei_cast (Suc j)),
                  Texture_bind (snd (m_textures s ! j))]) [0..<length (m_textures s)]) @
     [ActiveTexture 0]"
    by (simp add: bindTextures_def glActiveTexture_def gl_fields bindTextures_loop_calls)
  show ?thesis unfolding c0 eq by (rule refl)
qed

lemma bindTextures_fields:
  "gl_program (bindTextures s w) = gl_program w"
  "gl_active_texture (bindTextures s w) = 0"
  "err_lines (bindTextures s w) = err_lines w"
  by (simp_all add: bindTextures_def glActiveTexture_def gl_fields bindTextures_loop_fields)

lemma bind_program:
  assumes "fst (isAvailable h d (isAvailable_default h) (gl EnsureGlContext w))"
    and "m_shaderProgram s \<noteq> 0"
  shows "bind h d (Some s) w =
     (let w2 = snd (isAvailable h d (isAvailable_default h) (gl EnsureGlContext w));
          w4 = bindTextures s (glUseProgramObject (m_shaderProgram s) w2)
      in if m_currentTexture s \<noteq> -1 then gl (Uniform1i (m_currentTexture s) 0) w4 else w4)"
  using assms by (simp add: bind_def Let_def case_prod_beta)

lemma glCreateObject_keeps_probe:
  "isAvailable_available (snd (glCreateObject d c w)) = isAvailable_available w"
  "vertexShaderAvailable (snd (glCreateObject d c w)) = vertexShaderAvailable w"
  by (simp_all add: glCreateObject_def gl_fields)

lemma compileStage_keeps_probe:
  "isAvailable_available (snd (compileStage d st code p w)) = isAvailable_available w"
  "vertexShaderAvailable (snd (compileStage d st code p w)) = vertexShaderAvailable w"
  by (simp_all add: compileStage_def Let_def case_prod_beta glCreateObject_keeps_probe
      gl_fields err_fields)

lemma compileStage_opt_keeps_probe:
  "isAvailable_available (snd (compileStage_opt d st code p w)) = isAvailable_available w"
  "vertexShaderAvailable (snd (compileStage_opt d st code p w)) = vertexShaderAvailable w"
  by (simp_all add: compileStage_opt_def compileStage_keeps_probe split: option.splits)

lemma linkProgram_keeps_probe:
  "isAvailable_available (snd (snd (linkProgram d att p s w))) = isAvailable_available w"
  "vertexShaderAvailable (snd (snd (linkProgram d att p s w))) = vertexShaderAvailable w"
  by (simp_all add: linkProgram_def Let_def gl_fields err_fields)

lemma compile_keeps_probe:
  "isAvailable_available (snd (snd (compile h d v g f s w))) =
     isAvailable_available (snd (isAvailable h d (requested_stages h v g f) (gl EnsureGlContext w)))"
  "vertexShaderAvailable (snd (snd (compile h d v g f s w))) =
     vertexShaderAvailable (snd (isAvailable h d (requested_stages h v g f) (gl EnsureGlContext w)))"
  by (simp_all add: compile_unfold Let_def case_prod_beta compileStage_opt_keeps_probe
      linkProgram_keeps_probe glCreateObject_keeps_probe gl_fields err_fields)

lemma isAvailable_vertex:
  "vertexShaderAvailable (snd (isAvailable h d m w)) = vertex_flag d w"
  by (simp add: isAvailable_world vertex_flag_def split: option.splits)

lemma compileStage_ok_err_lines:
  "compile_status d st code \<Longrightarrow> err_lines (snd (compileStage d st code p w)) = err_lines w"
  by (simp add: compileStage_ok_world)

lemma compile_ok_err_lines:
  assumes "fst (isAvailable h d (requested_stages h v g f) (gl EnsureGlContext w))"
    and "fst (compile h d v g f s w)"
  shows "err_lines (snd (snd (compile h d v g f s w))) = err_lines w"
proof -
  from assms(2) have st: "stages_compile d (attached_stages (vertex_code h v g) g f)"
    and ln: "link_status d (attached_stages (vertex_code h v g) g f)"
    by (simp_all add: compile_available_fst [OF assms(1)])
  from st have sv: "case vertex_code h v g of None \<Rightarrow> True | Some c \<Rightarrow> compile_status d GL_VERTEX_SHADER c"
    and sg: "case g of None \<Rightarrow> True | Some c \<Rightarrow> compile_status d GL_GEOMETRY_SHADER c"
    and sf: "case f of None \<Rightarrow> True | Some c \<Rightarrow> compile_status d GL_FRAGMENT_SHADER c"
    by (simp_all add: stages_compile_attached)
  have opt: "\<And>st code p w. (case code of None \<Rightarrow> True | Some c \<Rightarrow> compile_status d st c) \<Longrightarrow>
      err_lines (snd (compileStage_opt d st code p w)) = err_lines w"
    by (simp add: compileStage_opt_def compileStage_ok_err_lines split: option.splits)
  show ?thesis
    using assms(1) ln sv sg sf
    by (simp add: compile_unfold Let_def case_prod_beta compileStage_opt_fst opt linkProgram_def
        glCreateObject_def gl_fields err_fields isAvailable_keeps)
qed

lemma bind_available:
  assumes "fst (isAvailable h d (isAvailable_default h) (gl EnsureGlContext w))"
    and "m_shaderProgram s \<noteq> 0"
    and "table_ok (m_textures s)"
    and "length (m_textures s) < 2 ^ 31"
  shows "gl_calls (bind h d (Some s) w) =
      gl_calls w @ [EnsureGlContext, Mutex_lock] @ probe_calls w @ [Mutex_unlock] @
      [UseProgramObject (m_shaderProgram s)] @
      concat (map (\<lambda>i. [Uniform1i (fst (m_textures s ! i)) (int i + 1),
                         ActiveTexture (int i + 1),
                         Texture_bind (snd (m_textures s ! i))]) [0..<length (m_textures s)]) @
      [ActiveTexture 0] @
      (if m_currentTexture s \<noteq> -1 then [Uniform1i (m_currentTexture s) 0] else [])
    \<and> gl_active_texture (bind h d (Some s) w) = 0
    \<and> gl_program (bind h d (Some s) w) = m_shaderProgram s
    \<and> err_lines (bind h d (Some s) w) = err_lines w
    \<and> (\<forall>i j. i < j \<and> j < length (m_textures s) \<longrightarrow>
          fst (m_textures s ! i) < fst (m_textures s ! j))"
proof -
  let ?w2 = "snd (isAvailable h d (isAvailable_default h) (gl EnsureGlContext w))"
  let ?w3 = "glUseProgramObject (m_shaderProgram s) ?w2"
  have c3: "gl_calls ?w3 = gl_calls w @ [EnsureGlContext, Mutex_lock] @ probe_calls w @ [Mutex_unlock] @
      [UseProgramObject (m_shaderProgram s)]"
    by (simp add: glUseProgramObject_def gl_fields isAvailable_keeps probe_calls_def)
  have p3: "gl_program ?w3 = m_shaderProgram s" and e3: "err_lines ?w3 = err_lines w"
    by (simp_all add: glUseProgramObject_def gl_fields isAvailable_keeps)
  have calls: "gl_calls (bind h d (Some s) w) =
      gl_calls w @ [EnsureGlContext, Mutex_lock] @ probe_calls w @ [Mutex_unlock] @
      [UseProgramObject (m_shaderProgram s)] @
      concat (map (\<lambda>i. [Uniform1i (fst (m_textures s ! i)) (int i + 1),
                         ActiveTexture (int i + 1),
                         Texture_bind (snd (m_textures s ! i))]) [0..<length (m_textures s)]) @
      [ActiveTexture 0] @
      (if m_currentTexture s \<noteq> -1 then [Uniform1i (m_currentTexture s) 0] else [])"
    by (simp add: bind_program [OF assms(1,2)] Let_def gl_fields bindTextures_calls [OF assms(4)] c3)
  have unit: "gl_active_texture (bind h d (Some s) w) = 0"
    by (simp add: bind_program [OF assms(1,2)] Let_def gl_fields bindTextures_fields)
  have prog: "gl_program (bind h d (Some s) w) = m_shaderProgram s"
    by (simp add: bind_program [OF assms(1,2)] Let_def gl_fields bindTextures_fields p3)
  have errs: "err_lines (bind h d (Some s) w) = err_lines w"
    by (simp add: bind_program [OF assms(1,2)] Let_def gl_fields bindTextures_fields e3)
  have order: "\<forall>i j. i < j \<and> j < length (m_textures s) \<longrightarrow>
          fst (m_textures s ! i) < fst (m_textures s ! j)"
    using assms(3) by (auto simp: table_ok_def sorted_wrt_iff_nth_less)
  from calls unit prog errs order show ?thesis by blast
qed

lemma bind_unavailable:
  assumes "\<not> fst (isAvailable h d (isAvailable_default h) (gl EnsureGlContext w))"
  shows "bind h d shader w =
     err unsupported_bind_line (snd (isAvailable h d (isAvailable_default h) (gl EnsureGlContext w)))"
  using assms by (simp add: bind_def Let_def case_prod_beta)

text \<open>
  Claim C5, as the code has it. \<open>bind\<close> on an instance with a program (its table in
  increasing location order, with fewer than \<open>2^31\<close> entries) first asks \<open>isAvailable\<close>.
  When that check passes: after the context and availability calls the program is made
  current; then, for the entries of the texture table in their order, which is by strictly
  increasing location, entry \<open>i\<close> (from 0) has its location set to unit \<open>i + 1\<close>, unit
  \<open>i + 1\<close> made active and its texture bound; then unit 0 is made active; and only then,
  if the current-texture location is not \<open>-1\<close>, it is set to unit 0, which leaves the
  active unit at 0. After the call the active unit is 0, the instance's program is
  current and no error line was written.
  When the check fails: \<open>bind\<close> writes its error line and issues nothing but the context
  and availability calls; the current program and the active unit stay as they were.
\<close>
theorem bind_assigns_units:
  assumes "m_shaderProgram s \<noteq> 0"
    and "table_ok (m_textures s)"
    and "length (m_textures s) < 2 ^ 31"
  shows "(fst (isAvailable h d (isAvailable_default h) (gl EnsureGlContext w)) \<longrightarrow>
      gl_calls (bind h d (Some s) w) =
        gl_calls w @ [EnsureGlContext, Mutex_lock] @ probe_calls w @ [Mutex_unlock] @
        [UseProgramObject (m_shaderProgram s)] @
        concat (map (\<lambda>i. [Uniform1i (fst (m_textures s ! i)) (int i + 1),
                           ActiveTexture (int i + 1),
                           Texture_bind (snd (m_textures s ! i))]) [0..<length (m_textures s)]) @
        [ActiveTexture 0] @
        (if m_currentTexture s \<noteq> -1 then [Uniform1i (m_currentTexture s) 0] else [])
      \<and> gl_active_texture (bind h d (Some s) w) = 0
      \<and> gl_program (bind h d (Some s) w) = m_shaderProgram s
      \<and> err_lines (bind h d (Some s) w) = err_lines w
      \<and> (\<forall>i j. i < j \<and> j < length (m_textures s) \<longrightarrow>
            fst (m_textures s ! i) < fst (m_textures s ! j)))
    \<and> (\<not> fst (isAvailable h d (isAvailable_default h) (gl EnsureGlContext w)) \<longrightarrow>
      gl_calls (bind h d (Some s) w) =
        gl_calls w @ [EnsureGlContext, Mutex_lock] @ probe_calls w @ [Mutex_unlock]
      \<and> err_lines (bind h d (Some s) w) = err_lines w @ [unsupported_bind_line]
      \<and> gl_program (bind h d (Some s) w) = gl_program w
      \<and> gl_active_texture (bind h d (Some s) w) = gl_active_texture w)"
proof (intro conjI impI)
  assume a: "fst (isAvailable h d (isAvailable_default h) (gl EnsureGlContext w))"
  note r = bind_available [OF a assms]
  from r show "gl_calls (bind h d (Some s) w) =
        gl_calls w @ [EnsureGlContext, Mutex_lock] @ probe_calls w @ [Mutex_unlock] @
        [UseProgramObject (m_shaderProgram s)] @
        concat (map (\<lambda>i. [Uniform1i (fst (m_textures s ! i)) (int i + 1),
                           ActiveTexture (int i + 1),
                           Texture_bind (snd (m_textures s ! i))]) [0..<length (m_textures s)]) @
        [ActiveTexture 0] @
        (if m_currentTexture s \<noteq> -1 then [Uniform1i (m_currentTexture s) 0] else [])"
    by (rule conjunct1)
  from r show "gl_active_texture (bind h d (Some s) w) = 0" by blast
  from r show "gl_program (bind h d (Some s) w) = m_shaderProgram s" by blast
  from r show "err_lines (bind h d (Some s) w) = err_lines w" by blast
  from r show "\<forall>i j. i < j \<and> j < length (m_textures s) \<longrightarrow>
            fst (m_textures s ! i) < fst (m_textures s ! j)" by blast
next
  assume n: "\<not> fst (isAvailable h d (isAvailable_default h) (gl EnsureGlContext w))"
  note u = bind_unavailable [OF n, of "Some s"]
  show "gl_calls (bind h d (Some s) w) =
        gl_calls w @ [EnsureGlContext, Mutex_lock] @ probe_calls w @ [Mutex_unlock]"
    by (simp add: u err_fields isAvailable_keeps gl_fields probe_calls_def)
  show "err_lines (bind h d (Some s) w) = err_lines w @ [unsupported_bind_line]"
    by (simp add: u err_fields isAvailable_keeps gl_fields)
  show "gl_program (bind h d (Some s) w) = gl_program w"
    by (simp add: u err_fields isAvailable_keeps gl_fields)
  show "gl_active_texture (bind h d (Some s) w) = gl_active_texture w"
    by (simp add: u err_fields isAvailable_keeps gl_fields)
qed

theorem bind_assigns_units_witness:
  "m_shaderProgram textured_shader \<noteq> 0 \<and> table_ok (m_textures textured_shader) \<and>
   length (m_textures textured_shader) < 2 ^ 31 \<and>
   fst (isAvailable some_decls some_driver (isAvailable_default some_decls) (gl EnsureGlContext start_world)) \<and>
   gl_calls (bind some_decls some_driver (Some textured_shader) start_world) =
     [EnsureGlContext, Mutex_lock, Context_create, EnsureExtensionsInit, Context_destroy, Mutex_unlock,
      UseProgramObject 1,
      Uniform1i 3 1, ActiveTexture 1, Texture_bind 20,
      Uniform1i 7 2, ActiveTexture 2, Texture_bind 10,
      ActiveTexture 0, Uniform1i 9 0] \<and>
   gl_active_texture (bind some_decls some_driver (Some textured_shader) start_world) = 0 \<and>
   \<not> fst (isAvailable some_decls no_shader_driver (isAvailable_default some_decls) (gl EnsureGlContext start_world)) \<and>
   gl_calls (bind some_decls no_shader_driver (Some textured_shader) start_world) =
     [EnsureGlContext, Mutex_lock, Context_create, EnsureExtensionsInit, Context_destroy, Mutex_unlock] \<and>
   err_lines (bind some_decls no_shader_driver (Some textured_shader) start_world) = [unsupported_bind_line]"
proof -
  have a: "fst (isAvailable some_decls some_driver (isAvailable_default some_decls) (gl EnsureGlContext start_world))"
    by (simp add: isAvailable_fst some_decls_def vertex_flag_def fragment_flag_def
        geometry_flag_def gl_fields start_world_def basic_reported_def some_driver_def)
  have n: "\<not> fst (isAvailable some_decls no_shader_driver (isAvailable_default some_decls) (gl EnsureGlContext start_world))"
    by (simp add: isAvailable_fst some_decls_def vertex_flag_def fragment_flag_def
        geometry_flag_def gl_fields start_world_def basic_reported_def some_driver_def
        no_shader_driver_def)
  have b: "m_shaderProgram textured_shader \<noteq> 0" by (simp add: textured_shader_def)
  have c: "table_ok (m_textures textured_shader)" by (simp add: table_ok_def textured_shader_def)
  have t: "m_textures textured_shader = [(3, 20), (7, 10)]" "m_currentTexture textured_shader = 9"
    "m_shaderProgram textured_shader = 1"
    by (simp_all add: textured_shader_def)
  have e: "length (m_textures textured_shader) < 2 ^ 31" by (simp add: t)
  have fields: "gl_calls start_world = []" "err_lines start_world = []"
    "probe_calls start_world = [Context_create, EnsureExtensionsInit, Context_destroy]"
    by (simp_all add: start_world_def probe_calls_def)
  have u: "[0..<length [(3::int, 20::nat), (7, 10)]] = [0, 1]" by (simp add: upt_conv_Cons)
  from bind_assigns_units [OF b c e, of some_decls some_driver start_world] a
  have one: "gl_calls (bind some_decls some_driver (Some textured_shader) start_world) =
     [EnsureGlContext, Mutex_lock, Context_create, EnsureExtensionsInit, Context_destroy, Mutex_unlock,
      UseProgramObject 1,
      Uniform1i 3 1, ActiveTexture 1, Texture_bind 20,
      Uniform1i 7 2, ActiveTexture 2, Texture_bind 10,
      ActiveTexture 0, Uniform1i 9 0] \<and>
   gl_active_texture (bind some_decls some_driver (Some textured_shader) start_world) = 0"
    by (simp add: t fields u)
  from bind_assigns_units [OF b c e, of some_decls no_shader_driver start_world] n
  have two: "gl_calls (bind some_decls no_shader_driver (Some textured_shader) start_world) =
     [EnsureGlContext, Mutex_lock, Context_create, EnsureExtensionsInit, Context_destroy, Mutex_unlock] \<and>
   err_lines (bind some_decls no_shader_driver (Some textured_shader) start_world) = [unsupported_bind_line]"
    by (simp add: fields)
  from a n b c e one two show ?thesis by blast
qed

text \<open>
  The claim as stated fails in two ways. A geometry source alone compiles and links on a
  backend that reports the geometry extension but not the basic shader extensions; the
  instance then holds program 1, and \<open>bind\<close> on it assigns no unit at all: it issues the
  context and lock calls and writes its error line. And where \<open>bind\<close> does assign the
  units, the reset of the active unit is not the last call: the current-texture location
  is set after it.
\<close>
theorem bind_assigns_units_counterexample:
  "fst (compile some_decls no_shader_driver None (Some ''g'') None Shader_new start_world) \<and>
   getNativeHandle (fst (snd (compile some_decls no_shader_driver None (Some ''g'') None Shader_new start_world))) = 1 \<and>
   gl_calls (bind some_decls no_shader_driver
       (Some (fst (snd (compile some_decls no_shader_driver None (Some ''g'') None Shader_new start_world))))
       (snd (snd (compile some_decls no_shader_driver None (Some ''g'') None Shader_new start_world)))) =
     gl_calls (snd (snd (compile some_decls no_shader_driver None (Some ''g'') None Shader_new start_world))) @
     [EnsureGlContext, Mutex_lock, Mutex_unlock] \<and>
   err_lines (bind some_decls no_shader_driver
       (Some (fst (snd (compile some_decls no_shader_driver None (Some ''g'') None Shader_new start_world))))
       (snd (snd (compile some_decls no_shader_driver None (Some ''g'') None Shader_new start_world)))) =
     [unsupported_bind_line] \<and>
   gl_calls (bind some_decls some_driver (Some textured_shader) start_world) =
     [EnsureGlContext, Mutex_lock, Context_create, EnsureExtensionsInit, Context_destroy, Mutex_unlock,
      UseProgramObject 1,
      Uniform1i 3 1, ActiveTexture 1, Texture_bind 20,
      Uniform1i 7 2, ActiveTexture 2, Texture_bind 10,
      ActiveTexture 0, Uniform1i 9 0]"
proof -
  let ?r = "compile some_decls no_shader_driver None (Some ''g'') None Shader_new start_world"
  have av: "fst (isAvailable some_decls no_shader_driver
      (requested_stages some_decls None (Some ''g'') None) (gl EnsureGlContext start_world))"
    by (simp add: geometry_only_available some_decls_def geometry_flag_def start_world_def
        some_driver_def no_shader_driver_def)
  have ok: "fst ?r"
    unfolding compile_available_fst [OF av]
    by (simp add: stages_compile_def vertex_code_def attached_stages_def some_driver_def
        no_shader_driver_def some_decls_def)
  have h1: "new_handle no_shader_driver (gl_created start_world) = 1"
    by (simp add: start_world_def some_driver_def no_shader_driver_def)
  have sh: "fst (snd ?r) = Shader_new\<lparr>m_shaderProgram := 1\<rparr>"
    unfolding compile_available_shader [OF av] h1 using ok by simp
  have probed: "isAvailable_available (snd (snd ?r)) \<noteq> None"
    unfolding compile_keeps_probe by (rule isAvailable_flags)
  have vf: "\<not> vertex_flag no_shader_driver start_world"
    by (simp add: vertex_flag_def start_world_def basic_reported_def some_driver_def
        no_shader_driver_def)
  have vs: "\<not> vertexShaderAvailable (snd (snd ?r))"
    unfolding compile_keeps_probe isAvailable_vertex flags_gl by (rule vf)
  have flags: "\<not> vertex_flag no_shader_driver (snd (snd ?r))"
    using probed vs by (auto simp: vertex_flag_def)
  have e0: "err_lines start_world = []" by (simp add: start_world_def)
  have errs: "err_lines (snd (snd ?r)) = []"
    unfolding compile_ok_err_lines [OF av ok] by (rule e0)
  have n: "\<not> fst (isAvailable some_decls no_shader_driver (isAvailable_default some_decls)
      (gl EnsureGlContext (snd (snd ?r))))"
    using flags by (simp add: isAvailable_fst flags_gl some_decls_def)
  have pc: "probe_calls (snd (snd ?r)) = []"
    using probed by (auto simp: probe_calls_def)
  have first: "gl_calls (bind some_decls no_shader_driver (Some (fst (snd ?r))) (snd (snd ?r))) =
     gl_calls (snd (snd ?r)) @ [EnsureGlContext, Mutex_lock, Mutex_unlock]"
    by (simp add: bind_unavailable [OF n] err_fields isAvailable_keeps gl_fields flags_gl pc)
  have second: "err_lines (bind some_decls no_shader_driver (Some (fst (snd ?r))) (snd (snd ?r))) =
     [unsupported_bind_line]"
    by (simp add: bind_unavailable [OF n] err_fields isAvailable_keeps gl_fields errs)
  have a: "fst (isAvailable some_decls some_driver (isAvailable_default some_decls) (gl EnsureGlContext start_world))"
    by (simp add: isAvailable_fst some_decls_def vertex_flag_def fragment_flag_def
        geometry_flag_def gl_fields start_world_def basic_reported_def some_driver_def)
  have b: "m_shaderProgram textured_shader \<noteq> 0" by (simp add: textured_shader_def)
  have c: "table_ok (m_textures textured_shader)" by (simp add: table_ok_def textured_shader_def)
  have t: "m_textures textured_shader = [(3, 20), (7, 10)]" "m_currentTexture textured_shader = 9"
    "m_shaderProgram textured_shader = 1"
    by (simp_all add: textured_shader_def)
  have e: "length (m_textures textured_shader) < 2 ^ 31" by (simp add: t)
  have fields: "gl_calls start_world = []"
    "probe_calls start_world = [Context_create, EnsureExtensionsInit, Context_destroy]"
    by (simp_all add: start_world_def probe_calls_def)
  have u: "[0..<length [(3::int, 20::nat), (7, 10)]] = [0, 1]" by (simp add: upt_conv_Cons)
  from bind_available [OF a b c e]
  have third: "gl_calls (bind some_decls some_driver (Some textured_shader) start_world) =
     [EnsureGlContext, Mutex_lock, Context_create, EnsureExtensionsInit, Context_destroy, Mutex_unlock,
      UseProgramObject 1,
      Uniform1i 3 1, ActiveTexture 1, Texture_bind 20,
      Uniform1i 7 2, ActiveTexture 2, Texture_bind 10,
      ActiveTexture 0, Uniform1i 9 0]"
    by (simp add: t fields u)
  have handle: "getNativeHandle (fst (snd ?r)) = 1" by (simp add: sh getNativeHandle_def)
  from ok handle first second third show ?thesis by blast
qed

subsection \<open>The texture-unit limit\<close>

lemma limit_static_ok_same:
  "limit_queries w' = limit_queries w \<Longrightarrow>
   getMaxTextureUnits_maxUnits w' = getMaxTextureUnits_maxUnits w \<Longrightarrow>
   limit_static_ok d w' = limit_static_ok d w"
  by (simp add: limit_static_ok_def split: option.splits)

lemma limit_kept_gl:
  "c \<noteq> GetIntegerv_MAX_COMBINED_TEXTURE_IMAGE_UNITS \<Longrightarrow> limit_static_ok d (gl c w) = limit_static_ok d w"
  by (rule limit_static_ok_same) (simp_all add: limit_queries_def gl_fields)

lemma limit_kept_err: "limit_static_ok d (err l w) = limit_static_ok d w"
  by (rule limit_static_ok_same) (simp_all add: limit_queries_def err_fields)

lemma limit_kept_use: "limit_static_ok d (glUseProgramObject p w) = limit_static_ok d w"
  by (rule limit_static_ok_same) (simp_all add: limit_queries_def glUseProgramObject_def gl_fields)

lemma limit_kept_unit: "limit_static_ok d (glActiveTexture u w) = limit_static_ok d w"
  by (rule limit_static_ok_same) (simp_all add: limit_queries_def glActiveTexture_def gl_fields)

lemma limit_kept_create:
  "c \<noteq> GetIntegerv_MAX_COMBINED_TEXTURE_IMAGE_UNITS \<Longrightarrow>
   limit_static_ok d (snd (glCreateObject d c w)) = limit_static_ok d w"
  by (rule limit_static_ok_same) (simp_all add: limit_queries_def glCreateObject_def gl_fields)

lemma limit_kept_isAvailable: "limit_static_ok d (snd (isAvailable h d m w)) = limit_static_ok d w"
  by (rule limit_static_ok_same)
     (simp_all add: limit_queries_def isAvailable_keeps probe_calls_def split: option.splits)

lemma limit_kept_getParamLocation:
  "limit_static_ok d (snd (snd (getParamLocation d name s w))) = limit_static_ok d w"
  by (rule limit_static_ok_same) (simp_all add: limit_queries_def getParamLocation_world)

lemma limit_kept_compileStage:
  "limit_static_ok d (snd (compileStage d st code p w)) = limit_static_ok d w"
  by (simp add: compileStage_def Let_def case_prod_beta limit_kept_gl limit_kept_err
      limit_kept_create)

lemma limit_kept_compileStage_opt:
  "limit_static_ok d (snd (compileStage_opt d st code p w)) = limit_static_ok d w"
  by (simp add: compileStage_opt_def limit_kept_compileStage split: option.splits)

lemma limit_kept_linkProgram:
  "limit_static_ok d (snd (snd (linkProgram d att p s w))) = limit_static_ok d w"
  by (simp add: linkProgram_def Let_def limit_kept_gl limit_kept_err)

lemma limit_kept_compile:
  "limit_static_ok d (snd (snd (compile h d v g f s w))) = limit_static_ok d w"
  by (simp add: compile_unfold Let_def case_prod_beta limit_kept_gl limit_kept_err
      limit_kept_create limit_kept_isAvailable limit_kept_compileStage_opt
      limit_kept_linkProgram)

lemma limit_kept_bindTextures_loop:
  "limit_static_ok d (bindTextures_loop i t w) = limit_static_ok d w"
  by (induction i t w rule: bindTextures_loop.induct)
     (simp_all add: Let_def limit_kept_gl limit_kept_unit)

lemma limit_kept_bind: "limit_static_ok d (bind h d shader w) = limit_static_ok d w"
  by (simp add: bind_def bindTextures_def Let_def case_prod_beta limit_kept_gl limit_kept_err
      limit_kept_use limit_kept_unit limit_kept_isAvailable limit_kept_bindTextures_loop
      split: option.splits)

lemma limit_kept_write:
  "(\<And>l. wr l \<noteq> GetIntegerv_MAX_COMBINED_TEXTURE_IMAGE_UNITS) \<Longrightarrow>
   limit_static_ok d (snd (setParameter_write d name wr s w)) = limit_static_ok d w"
  by (simp add: setParameter_write_def glGetHandle_PROGRAM_OBJECT_def Let_def case_prod_beta
      limit_kept_gl limit_kept_use limit_kept_getParamLocation)

lemma limit_kept_CurrentTexture:
  "limit_static_ok d (snd (setParameter_CurrentTexture d name s w)) = limit_static_ok d w"
  by (simp add: setParameter_CurrentTexture_def Let_def case_prod_beta
      limit_kept_gl limit_kept_getParamLocation)

lemma limit_kept_Texture:
  assumes "limit_static_ok d w"
  shows "limit_static_ok d (snd (setParameter_Texture d name tex s w))"
proof (cases "m_shaderProgram s = 0")
  case True
  then show ?thesis using assms by (simp add: setParameter_Texture_zero)
next
  case False
  from setParameter_Texture_unfold [OF False assms, of name tex]
  show ?thesis by (auto simp: limit_kept_err split: option.splits if_splits)
qed

lemma limit_kept_setParameter:
  assumes "limit_static_ok d w"
  shows "limit_static_ok d (snd (setParameter d name p s w))"
proof (cases p)
  case (P_Vector2f v)
  then show ?thesis using assms
    by (cases v) (simp add: setParameter_2f_def limit_kept_write)
next
  case (P_Vector3f v)
  then show ?thesis using assms
    by (cases v) (simp add: setParameter_3f_def limit_kept_write)
next
  case (P_Color c)
  then show ?thesis using assms
    by (cases c) (simp add: setParameter_4f_def limit_kept_write)
next
  case (P_Texture t)
  then show ?thesis using limit_kept_Texture [OF assms] by simp
qed (simp_all add: assms setParameter_1f_def setParameter_2f_def setParameter_3f_def
      setParameter_4f_def setParameter_Transform_def limit_kept_write limit_kept_CurrentTexture)

lemma setParameter_Textures_append:
  "setParameter_Textures d (xs @ ys) s w =
     (let (s1, w1) = setParameter_Textures d xs s w in setParameter_Textures d ys s1 w1)"
  by (induction xs arbitrary: s w) (auto simp: Let_def split: prod.splits)

lemma size_t_cast_nat: "0 \<le> i \<Longrightarrow> i < 2 ^ 31 \<Longrightarrow> size_t_cast i = nat i"
  by (simp add: size_t_cast_def)

lemma limit_static_ok_queries: "limit_static_ok d w \<Longrightarrow> limit_queries w \<le> 1"
  by (simp add: limit_static_ok_def split: option.splits)

lemma setParameter_Texture_grows:
  assumes "m_shaderProgram s \<noteq> 0" and "limit_static_ok d w" and "table_ok (m_textures s)"
    and "length (m_textures s) < length (m_textures (fst (setParameter_Texture d name tex s w)))"
  shows "length (m_textures s) + 1 < size_t_cast (max_combined_texture_image_units d)"
proof (rule ccontr)
  assume n: "\<not> length (m_textures s) + 1 < size_t_cast (max_combined_texture_image_units d)"
  obtain w2 w3 where unf: "setParameter_Texture d name tex s w =
     (if resolve d s name \<noteq> -1 then
        (case map_of (m_textures s) (resolve d s name) of
           None \<Rightarrow>
             (if length (m_textures s) + 1 \<ge> size_t_cast (max_combined_texture_image_units d)
              then (cache_after d name s, err (no_unit_line name) w3)
              else ((cache_after d name s)\<lparr>m_textures := table_assign (resolve d s name) tex (m_textures s)\<rparr>, w3))
         | Some _ \<Rightarrow>
             ((cache_after d name s)\<lparr>m_textures := table_assign (resolve d s name) tex (m_textures s)\<rparr>, w2))
      else (cache_after d name s, w2))"
    using setParameter_Texture_unfold [OF assms(1,2), of name tex] by blast
  have "length (m_textures (fst (setParameter_Texture d name tex s w))) = length (m_textures s)"
    unfolding unf using n assms(3)
    by (cases "map_of (m_textures s) (resolve d s name)") (simp_all add: length_table_assign)
  with assms(4) show False by simp
qed

text \<open>
  Claim C3, as the code has it. An instance with a program and an empty texture table receives texture
  parameters for \<open>N + 1\<close> names that resolve to \<open>N + 1\<close> distinct locations, none
  \<open>-1\<close>, and the backend's combined texture-unit limit is \<open>N + 1\<close>. Then each of the
  first \<open>N\<close> calls inserts a binding (after \<open>k\<close> calls the table has \<open>k\<close> entries, and
  after \<open>N\<close> it maps exactly the first \<open>N\<close> locations to their textures, with no error
  line written); the last call writes the texture-unit error line and leaves the table
  as it was, of size \<open>N\<close>, as well as the program handle, the current-texture location and
  the location every name resolves to: the instance after it is the instance before it,
  except that the uniform-location cache has gained the entry of the rejected name when it
  did not hold one. In any state, a call makes the table grow only if
  its size plus one is strictly below the limit. The limit is asked of the backend at
  most once: the static of \<open>getMaxTextureUnits\<close> agrees with the calls issued
  (\<open>limit_static_ok\<close>: not initialised and never asked, or initialised and asked once)
  at the start of the process, every \<open>setParameter\<close> overload, \<open>compile\<close>, \<open>bind\<close>
  and \<open>isAvailable\<close> keep that, and so it holds after the \<open>N + 1\<close> calls.
\<close>
theorem texture_unit_limit:
  assumes "m_shaderProgram s \<noteq> 0" and "m_textures s = []" and "limit_static_ok d w"
    and "distinct (map (\<lambda>c. resolve d s (fst c)) (first @ [(name, tex)]))"
    and "\<forall>c\<in>set (first @ [(name, tex)]). resolve d s (fst c) \<noteq> -1"
    and "max_combined_texture_image_units d = int (length first) + 1"
    and "int (length first) + 1 < 2 ^ 31"
  shows "\<exists>s1 w1 s2 w2.
      setParameter_Textures d first s w = (s1, w1)
    \<and> setParameter_Texture d name tex s1 w1 = (s2, w2)
    \<and> setParameter_Textures d (first @ [(name, tex)]) s w = (s2, w2)
    \<and> (\<forall>k\<le>length first. length (m_textures (fst (setParameter_Textures d (take k first) s w))) = k)
    \<and> (\<forall>k. map_of (m_textures s1) k = map_of (map (\<lambda>c. (resolve d s (fst c), snd c)) first) k)
    \<and> err_lines w1 = err_lines w
    \<and> err_lines w2 = err_lines w1 @ [no_unit_line name]
    \<and> m_textures s2 = m_textures s1 \<and> length (m_textures s2) = length first
    \<and> m_shaderProgram s2 = m_shaderProgram s \<and> m_currentTexture s2 = m_currentTexture s
    \<and> (\<forall>n. resolve d s2 n = resolve d s n)
    \<and> limit_static_ok d w2 \<and> limit_queries w2 \<le> 1
    \<and> (\<forall>s0 w0 n t. m_shaderProgram s0 \<noteq> 0 \<and> table_ok (m_textures s0) \<and> limit_static_ok d w0 \<and>
          length (m_textures s0) < length (m_textures (fst (setParameter_Texture d n t s0 w0))) \<longrightarrow>
          int (length (m_textures s0)) + 1 < max_combined_texture_image_units d)
    \<and> limit_static_ok d start_world
    \<and> (\<forall>s0 w0 n p. limit_static_ok d w0 \<longrightarrow> limit_static_ok d (snd (setParameter d n p s0 w0)))
    \<and> (\<forall>h s0 w0 v g f. limit_static_ok d w0 \<longrightarrow> limit_static_ok d (snd (snd (compile h d v g f s0 w0))))
    \<and> (\<forall>h sh w0. limit_static_ok d w0 \<longrightarrow> limit_static_ok d (bind h d sh w0))
    \<and> (\<forall>h m w0. limit_static_ok d w0 \<longrightarrow> limit_static_ok d (snd (isAvailable h d m w0)))
    \<and> s2 = (if map_of (m_params s1) name = None
              then s1\<lparr>m_params := (name, resolve d s name) # m_params s1\<rparr> else s1)"
proof -
  let ?L = "max_combined_texture_image_units d"
  have L: "size_t_cast ?L = length first + 1"
    using assms(6,7) by (simp add: size_t_cast_nat)
  have tok: "table_ok (m_textures s)" by (simp add: assms(2) table_ok_def)
  have dist: "distinct (map (\<lambda>c. resolve d s (fst c)) first)"
    and last_new: "resolve d s name \<notin> (\<lambda>c. resolve d s (fst c)) ` set first"
    using assms(4) by auto
  have valid: "\<forall>c\<in>set first. resolve d s (fst c) \<noteq> -1 \<and> map_of (m_textures s) (resolve d s (fst c)) = None"
    using assms(5) by (simp add: assms(2))
  have prefix: "length (m_textures (fst (setParameter_Textures d (take k first) s w))) = k"
    if k: "k \<le> length first" for k
  proof -
    have d: "distinct (map (\<lambda>c. resolve d s (fst c)) (take k first))"
      using dist by (simp add: take_map [symmetric] distinct_take)
    have v: "\<forall>c\<in>set (take k first). resolve d s (fst c) \<noteq> -1 \<and> map_of (m_textures s) (resolve d s (fst c)) = None"
      using valid by (meson in_set_takeD)
    have r: "length (m_textures s) + length (take k first) < size_t_cast ?L"
      using k by (simp add: L assms(2))
    from setParameter_Textures_all_inserted [OF assms(1) tok assms(3) d v r]
    show ?thesis using k by (auto simp: assms(2))
  qed
  have room: "length (m_textures s) + length first < size_t_cast ?L"
    by (simp add: L assms(2))
  obtain s1 w1 where run1: "setParameter_Textures d first s w = (s1, w1)"
    and p1: "m_shaderProgram s1 = m_shaderProgram s" and c1: "m_currentTexture s1 = m_currentTexture s"
    and tok1: "table_ok (m_textures s1)"
    and len1: "length (m_textures s1) = length (m_textures s) + length first"
    and map1: "\<forall>k. map_of (m_textures s1) k =
          (case map_of (map (\<lambda>c. (resolve d s (fst c), snd c)) first) k of
             Some t \<Rightarrow> Some t | None \<Rightarrow> map_of (m_textures s) k)"
    and r1: "\<forall>n. resolve d s1 n = resolve d s n"
    and ok1: "limit_static_ok d w1" and e1: "err_lines w1 = err_lines w"
    using setParameter_Textures_all_inserted [OF assms(1) tok assms(3) dist valid room] by blast
  have map1': "\<forall>k. map_of (m_textures s1) k = map_of (map (\<lambda>c. (resolve d s (fst c), snd c)) first) k"
    using map1 by (simp add: assms(2) split: option.splits)
  have A: "m_shaderProgram s1 \<noteq> 0" using assms(1) p1 by simp
  have B: "resolve d s1 name \<noteq> -1" using assms(5) r1 by simp
  have C: "map_of (m_textures s1) (resolve d s1 name) = None"
    using last_new r1 map1' by (force simp: map_of_eq_None_iff)
  have D: "length (m_textures s1) + 1 \<ge> size_t_cast ?L"
    by (simp add: L len1 assms(2))
  obtain s2 w2 where run2: "setParameter_Texture d name tex s1 w1 = (s2, w2)"
    and p2: "m_shaderProgram s2 = m_shaderProgram s1" and c2: "m_currentTexture s2 = m_currentTexture s1"
    and t2: "m_textures s2 = m_textures s1"
    and r2: "\<forall>n. resolve d s2 n = resolve d s1 n"
    and ok2: "limit_static_ok d w2" and e2: "err_lines w2 = err_lines w1 @ [no_unit_line name]"
    and ca: "s2 = cache_after d name s1"
    using setParameter_Texture_rejects [OF A ok1 B C D, of tex] by blast
  have inst: "s2 = (if map_of (m_params s1) name = None
              then s1\<lparr>m_params := (name, resolve d s name) # m_params s1\<rparr> else s1)"
    using r1 by (simp add: ca cache_after_def)
  have run: "setParameter_Textures d (first @ [(name, tex)]) s w = (s2, w2)"
    by (simp add: setParameter_Textures_append run1 run2)
  have only: "int (length (m_textures s0)) + 1 < ?L"
    if "m_shaderProgram s0 \<noteq> 0 \<and> table_ok (m_textures s0) \<and> limit_static_ok d w0 \<and>
          length (m_textures s0) < length (m_textures (fst (setParameter_Texture d n t s0 w0)))"
    for s0 w0 n t
  proof -
    from that have "length (m_textures s0) + 1 < size_t_cast ?L"
      using setParameter_Texture_grows [of s0 d w0 n t] by blast
    then show ?thesis using assms(6,7) by (simp add: size_t_cast_nat)
  qed
  have q: "limit_queries w2 \<le> 1" using ok2 by (rule limit_static_ok_queries)
  have prefix': "\<forall>k\<le>length first.
      length (m_textures (fst (setParameter_Textures d (take k first) s w))) = k"
    using prefix by blast
  have only': "\<forall>s0 w0 n t. m_shaderProgram s0 \<noteq> 0 \<and> table_ok (m_textures s0) \<and> limit_static_ok d w0 \<and>
          length (m_textures s0) < length (m_textures (fst (setParameter_Texture d n t s0 w0))) \<longrightarrow>
          int (length (m_textures s0)) + 1 < ?L"
    using only by blast
  have len2: "length (m_textures s2) = length first" by (simp add: t2 len1 assms(2))
  have p2': "m_shaderProgram s2 = m_shaderProgram s" by (simp add: p2 p1)
  have c2': "m_currentTexture s2 = m_currentTexture s" by (simp add: c2 c1)
  have r2': "\<forall>n. resolve d s2 n = resolve d s n" by (simp add: r2 r1)
  have start: "limit_static_ok d start_world"
    by (simp add: limit_static_ok_def limit_queries_def start_world_def)
  have k1: "\<forall>s0 w0 n p. limit_static_ok d w0 \<longrightarrow> limit_static_ok d (snd (setParameter d n p s0 w0))"
    by (simp add: limit_kept_setParameter)
  have k2: "\<forall>h s0 w0 v g f. limit_static_ok d w0 \<longrightarrow> limit_static_ok d (snd (snd (compile h d v g f s0 w0)))"
    by (simp add: limit_kept_compile)
  have k3: "\<forall>h sh w0. limit_static_ok d w0 \<longrightarrow> limit_static_ok d (bind h d sh w0)"
    by (simp add: limit_kept_bind)
  have k4: "\<forall>h m w0. limit_static_ok d w0 \<longrightarrow> limit_static_ok d (snd (isAvailable h d m w0))"
    by (simp add: limit_kept_isAvailable)
  show ?thesis
    apply (rule exI [of _ s1])
    apply (rule exI [of _ w1])
    apply (rule exI [of _ s2])
    apply (rule exI [of _ w2])
    apply (intro conjI)
    apply (fact run1 run2 run prefix' map1' e1 e2 t2 len2 p2' c2' r2' ok2 q only' start k1 k2 k3 k4 inst)+
    done
qed

theorem texture_unit_limit_witness:
  "m_shaderProgram linked_shader \<noteq> 0 \<and> m_textures linked_shader = [] \<and>
   limit_static_ok some_driver start_world \<and>
   distinct (map (\<lambda>c. resolve some_driver linked_shader (fst c))
      ([(''a'', 10), (''b'', 20), (''c'', 30)] @ [(''d'', 40::nat)])) \<and>
   list_all (\<lambda>c. resolve some_driver linked_shader (fst c) \<noteq> -1)
      ([(''a'', 10), (''b'', 20), (''c'', 30)] @ [(''d'', 40::nat)]) \<and>
   max_combined_texture_image_units some_driver = int (length [(''a'', 10::nat), (''b'', 20), (''c'', 30)]) + 1 \<and>
   (\<exists>s2 w2. setParameter_Textures some_driver ([(''a'', 10), (''b'', 20), (''c'', 30)] @ [(''d'', 40)])
          linked_shader start_world = (s2, w2)
      \<and> length (m_textures s2) = 3 \<and> limit_queries w2 \<le> 1
      \<and> err_lines w2 = err_lines start_world @ [no_unit_line ''d''])"
proof -
  have h1: "m_shaderProgram linked_shader \<noteq> 0" by (simp add: linked_shader_def)
  have h2: "m_textures linked_shader = []" by (simp add: linked_shader_def)
  have h3: "limit_static_ok some_driver start_world"
    by (simp add: limit_static_ok_def limit_queries_def start_world_def)
  have h4: "distinct (map (\<lambda>c. resolve some_driver linked_shader (fst c))
      ([(''a'', 10), (''b'', 20), (''c'', 30)] @ [(''d'', 40::nat)]))"
    by (simp add: resolve_def linked_shader_def some_driver_def c_str_def)
  have h5: "\<forall>c\<in>set ([(''a'', 10), (''b'', 20), (''c'', 30)] @ [(''d'', 40::nat)]).
      resolve some_driver linked_shader (fst c) \<noteq> -1"
    by (simp add: resolve_def linked_shader_def some_driver_def c_str_def)
  have h6: "max_combined_texture_image_units some_driver = int (length [(''a'', 10::nat), (''b'', 20), (''c'', 30)]) + 1"
    by (simp add: some_driver_def)
  have h7: "int (length [(''a'', 10::nat), (''b'', 20), (''c'', 30)]) + 1 < 2 ^ 31" by simp
  from texture_unit_limit [OF h1 h2 h3 h4 h5 h6 h7]
  have "\<exists>s2 w2. setParameter_Textures some_driver ([(''a'', 10), (''b'', 20), (''c'', 30)] @ [(''d'', 40)])
          linked_shader start_world = (s2, w2)
      \<and> length (m_textures s2) = 3 \<and> limit_queries w2 \<le> 1
      \<and> err_lines w2 = err_lines start_world @ [no_unit_line ''d'']"
    by (elim exE conjE) simp
  moreover have "list_all (\<lambda>c. resolve some_driver linked_shader (fst c) \<noteq> -1)
      ([(''a'', 10), (''b'', 20), (''c'', 30)] @ [(''d'', 40::nat)])"
    using h5 by (simp only: list_all_iff)
  ultimately show ?thesis using h1 h2 h3 h4 h6 by blast
qed

text \<open>
  The claim as stated, that the rejected call leaves the rest of the state unaffected,
  fails: with a limit of four units and three textures set, the call for a fourth name is
  rejected with the error line, and the instance is not what it was: its cache has gained
  the fourth name.
\<close>
theorem texture_unit_limit_counterexample:
  "max_combined_texture_image_units some_driver = 4 \<and>
   length (m_textures (fst (setParameter_Textures some_driver
      [(''a'', 10), (''b'', 20), (''c'', 30)] linked_shader start_world))) = 3 \<and>
   err_lines (snd (setParameter_Texture some_driver ''d'' 40
      (fst (setParameter_Textures some_driver [(''a'', 10), (''b'', 20), (''c'', 30)] linked_shader start_world))
      (snd (setParameter_Textures some_driver [(''a'', 10), (''b'', 20), (''c'', 30)] linked_shader start_world))))
     = [no_unit_line ''d''] \<and>
   fst (setParameter_Texture some_driver ''d'' 40
      (fst (setParameter_Textures some_driver [(''a'', 10), (''b'', 20), (''c'', 30)] linked_shader start_world))
      (snd (setParameter_Textures some_driver [(''a'', 10), (''b'', 20), (''c'', 30)] linked_shader start_world)))
     \<noteq> fst (setParameter_Textures some_driver [(''a'', 10), (''b'', 20), (''c'', 30)] linked_shader start_world) \<and>
   m_params (fst (setParameter_Texture some_driver ''d'' 40
      (fst (setParameter_Textures some_driver [(''a'', 10), (''b'', 20), (''c'', 30)] linked_shader start_world))
      (snd (setParameter_Textures some_driver [(''a'', 10), (''b'', 20), (''c'', 30)] linked_shader start_world))))
     = (''d'', 9) #
       m_params (fst (setParameter_Textures some_driver [(''a'', 10), (''b'', 20), (''c'', 30)] linked_shader start_world))"
proof -
  have three: "setParameter_Textures some_driver [(''a'', 10), (''b'', 20), (''c'', 30)]
          linked_shader start_world =
          (linked_shader\<lparr>m_textures := [(3, 20), (5, 30), (7, 10)],
              m_params := [(''c'', 5), (''b'', 3), (''a'', 7)]\<rparr>,
           start_world\<lparr>gl_calls := [EnsureGlContext, GetUniformLocation 1 ''a'', Mutex_lock,
               GetIntegerv_MAX_COMBINED_TEXTURE_IMAGE_UNITS, Mutex_unlock,
               EnsureGlContext, GetUniformLocation 1 ''b'', Mutex_lock, Mutex_unlock,
               EnsureGlContext, GetUniformLocation 1 ''c'', Mutex_lock, Mutex_unlock],
             getMaxTextureUnits_maxUnits := Some 4\<rparr>)"
    by (simp add: setParameter_Texture_def getParamLocation_def glGetUniformLocation_def
        getMaxTextureUnits_def checkMaxTextureUnits_def size_t_cast_def gl_def err_def
        linked_shader_def start_world_def some_driver_def c_str_def Let_def)
  have four: "setParameter_Texture some_driver ''d'' 40
          (linked_shader\<lparr>m_textures := [(3, 20), (5, 30), (7, 10)],
              m_params := [(''c'', 5), (''b'', 3), (''a'', 7)]\<rparr>)
          (start_world\<lparr>gl_calls := [EnsureGlContext, GetUniformLocation 1 ''a'', Mutex_lock,
               GetIntegerv_MAX_COMBINED_TEXTURE_IMAGE_UNITS, Mutex_unlock,
               EnsureGlContext, GetUniformLocation 1 ''b'', Mutex_lock, Mutex_unlock,
               EnsureGlContext, GetUniformLocation 1 ''c'', Mutex_lock, Mutex_unlock],
             getMaxTextureUnits_maxUnits := Some 4\<rparr>) =
          (linked_shader\<lparr>m_textures := [(3, 20), (5, 30), (7, 10)],
              m_params := [(''d'', 9), (''c'', 5), (''b'', 3), (''a'', 7)]\<rparr>,
           start_world\<lparr>gl_calls := [EnsureGlContext, GetUniformLocation 1 ''a'', Mutex_lock,
               GetIntegerv_MAX_COMBINED_TEXTURE_IMAGE_UNITS, Mutex_unlock,
               EnsureGlContext, GetUniformLocation 1 ''b'', Mutex_lock, Mutex_unlock,
               EnsureGlContext, GetUniformLocation 1 ''c'', Mutex_lock, Mutex_unlock,
               EnsureGlContext, GetUniformLocation 1 ''d'', Mutex_lock, Mutex_unlock],
             err_lines := [no_unit_line ''d''],
             getMaxTextureUnits_maxUnits := Some 4\<rparr>)"
    by (simp add: setParameter_Texture_def getParamLocation_def glGetUniformLocation_def
        getMaxTextureUnits_def checkMaxTextureUnits_def size_t_cast_def gl_def err_def
        linked_shader_def start_world_def some_driver_def c_str_def Let_def)
  have limit: "max_combined_texture_image_units some_driver = 4" by (simp add: some_driver_def)
  show ?thesis
    unfolding three fst_conv snd_conv four
    by (simp add: limit linked_shader_def)
qed

end
